theory Spec2Isabelle
  imports Complex_Main "HOL-Library.AList"
begin

section \<open>JavaScript numbers\<close>

text \<open>
  The scoring service of \<^verbatim>\<open>points-service-v2.ts\<close> computes on JavaScript numbers. A
  number is \<open>NaN\<close>, one of the two infinities, or a finite value; a finite value is
  represented by the real number it denotes. Comparison with \<open>NaN\<close> is always false, as in
  the language. Addition propagates \<open>NaN\<close> and the infinities as IEEE 754 does; on two
  finite values it is the exact sum (the rounding of the sum is not represented). The
  point values themselves are small integer literals and sums of them, so they are \<open>int\<close>.
\<close>

datatype number = NaN | NegInf | Fin real | PosInf

fun js_le :: "number \<Rightarrow> number \<Rightarrow> bool" where
  "js_le NaN y = False"
| "js_le x NaN = False"
| "js_le NegInf y = True"
| "js_le x PosInf = True"
| "js_le (Fin a) (Fin b) = (a \<le> b)"
| "js_le PosInf y = False"
| "js_le x NegInf = False"

fun js_lt :: "number \<Rightarrow> number \<Rightarrow> bool" where
  "js_lt NaN y = False"
| "js_lt x NaN = False"
| "js_lt (Fin a) (Fin b) = (a < b)"
| "js_lt PosInf y = False"
| "js_lt x NegInf = False"
| "js_lt NegInf y = True"
| "js_lt x PosInf = True"

definition js_ge :: "number \<Rightarrow> number \<Rightarrow> bool" where
  "js_ge x y = js_le y x"

definition js_gt :: "number \<Rightarrow> number \<Rightarrow> bool" where
  "js_gt x y = js_lt y x"

fun js_add :: "number \<Rightarrow> number \<Rightarrow> number" where
  "js_add NaN y = NaN"
| "js_add x NaN = NaN"
| "js_add PosInf NegInf = NaN"
| "js_add NegInf PosInf = NaN"
| "js_add PosInf y = PosInf"
| "js_add x PosInf = PosInf"
| "js_add NegInf y = NegInf"
| "js_add x NegInf = NegInf"
| "js_add (Fin a) (Fin b) = Fin (a + b)"

text \<open>\<^verbatim>\<open>isNaN(x)\<close> on a number.\<close>

definition isNaN :: "number \<Rightarrow> bool" where
  "isNaN x = (x = NaN)"

text \<open>\<^verbatim>\<open>x || 0\<close> on a number: \<open>NaN\<close> and zero are falsy.\<close>

definition or_zero :: "number \<Rightarrow> number" where
  "or_zero x = (if x = NaN \<or> x = Fin 0 then Fin 0 else x)"

text \<open>\<^verbatim>\<open>obj?.field || 0\<close> on an optional numeric field: an absent field is \<^verbatim>\<open>undefined\<close>.\<close>

definition opt_or_zero :: "number option \<Rightarrow> number" where
  "opt_or_zero v = (case v of None \<Rightarrow> Fin 0 | Some x \<Rightarrow> or_zero x)"

section \<open>Tier resolvers\<close>

definition calculateNftCollectionsPoints :: "number \<Rightarrow> int" where
  "calculateNftCollectionsPoints nftCount =
     (if js_ge nftCount (Fin 10) then 400
      else if js_ge nftCount (Fin 5) then 250
      else if js_ge nftCount (Fin 3) then 150
      else if js_ge nftCount (Fin 1) then 50
      else 0)"

definition calculateWalletAgePoints :: "number \<Rightarrow> int" where
  "calculateWalletAgePoints ageDays =
     (if js_le ageDays (Fin 0) then 0
      else if js_le ageDays (Fin 30) then 100
      else if js_le ageDays (Fin 90) then 200
      else if js_le ageDays (Fin 180) then 300
      else if js_le ageDays (Fin 365) then 400
      else if js_le ageDays (Fin 730) then 500
      else 600)"

definition calculateTotalTxPoints :: "number \<Rightarrow> int" where
  "calculateTotalTxPoints txCount =
     (if js_le txCount (Fin 0) then 0
      else if js_le txCount (Fin 100) then 100
      else if js_le txCount (Fin 200) then 200
      else if js_le txCount (Fin 400) then 300
      else if js_le txCount (Fin 700) then 400
      else if js_le txCount (Fin 900) then 500
      else 600)"

definition getBridgeVolumeTierPoints :: "number \<Rightarrow> int" where
  "getBridgeVolumeTierPoints volumeUsd =
     (if js_ge volumeUsd (Fin 10000) then 500
      else if js_ge volumeUsd (Fin 5000) then 400
      else if js_ge volumeUsd (Fin 1000) then 250
      else if js_ge volumeUsd (Fin 100) then 100
      else if js_ge volumeUsd (Fin 1) then 25
      else 0)"

definition calculateBridgeInPoints :: "number \<Rightarrow> int" where
  "calculateBridgeInPoints bridgeInVolumeUsd = getBridgeVolumeTierPoints bridgeInVolumeUsd"

definition calculateBridgeOutPoints :: "number \<Rightarrow> int" where
  "calculateBridgeOutPoints bridgeOutVolumeUsd = getBridgeVolumeTierPoints bridgeOutVolumeUsd"

definition calculateGmPoints :: "number \<Rightarrow> int" where
  "calculateGmPoints gmCount =
     (if js_ge gmCount (Fin 150) then 400
      else if js_ge gmCount (Fin 50) then 250
      else if js_ge gmCount (Fin 10) then 150
      else if js_ge gmCount (Fin 1) then 50
      else 0)"

definition calculateInkyPumpPoints :: "number \<Rightarrow> number \<Rightarrow> number \<Rightarrow> int" where
  "calculateInkyPumpPoints createdCount buyVolumeUsd sellVolumeUsd =
     (let createPoints = (if js_ge createdCount (Fin 3) then 50
                          else if js_ge createdCount (Fin 1) then 25 else 0);
          totalVolume = js_add buyVolumeUsd sellVolumeUsd;
          volumePoints = (if js_ge totalVolume (Fin 10000) then 350
                          else if js_ge totalVolume (Fin 1000) then 250
                          else if js_ge totalVolume (Fin 100) then 150
                          else if js_ge totalVolume (Fin 1) then 50
                          else 0)
      in createPoints + volumePoints)"

definition getTydroSupplyTierPoints :: "number \<Rightarrow> int" where
  "getTydroSupplyTierPoints supplyUsd =
     (if js_ge supplyUsd (Fin 50000) then 1250
      else if js_ge supplyUsd (Fin 10000) then 1000
      else if js_ge supplyUsd (Fin 1000) then 600
      else if js_ge supplyUsd (Fin 100) then 250
      else if js_ge supplyUsd (Fin 1) then 50
      else 0)"

definition getTydroBorrowTierPoints :: "number \<Rightarrow> int" where
  "getTydroBorrowTierPoints borrowUsd =
     (if js_ge borrowUsd (Fin 25000) then 1250
      else if js_ge borrowUsd (Fin 5000) then 1000
      else if js_ge borrowUsd (Fin 500) then 600
      else if js_ge borrowUsd (Fin 50) then 250
      else if js_ge borrowUsd (Fin 1) then 50
      else 0)"

definition calculateTydroPoints :: "number \<Rightarrow> number \<Rightarrow> int" where
  "calculateTydroPoints supplyUsd borrowUsd =
     (let supplyPoints = getTydroSupplyTierPoints supplyUsd;
          borrowPoints = getTydroBorrowTierPoints borrowUsd
      in supplyPoints + borrowPoints)"

definition calculateSwapVolumePoints :: "number \<Rightarrow> int" where
  "calculateSwapVolumePoints swapAmountUsd =
     (if js_ge swapAmountUsd (Fin 25000) then 500
      else if js_ge swapAmountUsd (Fin 10000) then 400
      else if js_ge swapAmountUsd (Fin 5000) then 250
      else if js_ge swapAmountUsd (Fin 1000) then 100
      else if js_ge swapAmountUsd (Fin 1) then 25
      else 0)"

definition calculateShelliesPoints :: "number \<Rightarrow> number \<Rightarrow> number \<Rightarrow> int" where
  "calculateShelliesPoints playedGameCount stakedNftCount joinedRaffleCount =
     (let playPoints = (if js_ge playedGameCount (Fin 50) then 150
                        else if js_ge playedGameCount (Fin 10) then 75
                        else if js_ge playedGameCount (Fin 1) then 25
                        else 0);
          stakePoints = (if js_ge stakedNftCount (Fin 5) then 150
                         else if js_ge stakedNftCount (Fin 3) then 100
                         else if js_ge stakedNftCount (Fin 1) then 50
                         else 0);
          rafflePoints = (if js_ge joinedRaffleCount (Fin 10) then 100
                          else if js_ge joinedRaffleCount (Fin 5) then 50
                          else if js_ge joinedRaffleCount (Fin 1) then 25
                          else 0)
      in playPoints + stakePoints + rafflePoints)"

definition calculateZnsPoints :: "number \<Rightarrow> number \<Rightarrow> number \<Rightarrow> int" where
  "calculateZnsPoints deployCount saidGmCount registerCount =
     (let registerPoints = (if js_ge registerCount (Fin 3) then 200
                            else if js_ge registerCount (Fin 1) then 100 else 0);
          deployPoints = (if js_ge deployCount (Fin 3) then 50
                          else if js_ge deployCount (Fin 1) then 20 else 0);
          gmPoints = (if js_ge saidGmCount (Fin 10) then 50
                      else if js_ge saidGmCount (Fin 1) then 20 else 0)
      in registerPoints + deployPoints + gmPoints)"

definition calculateMarvkPoints :: "number \<Rightarrow> number \<Rightarrow> number \<Rightarrow> int" where
  "calculateMarvkPoints cardMintedCount lockTokenCount vestTokenCount =
     (let cardPoints = (if js_ge cardMintedCount (Fin 1) then 100 else 0);
          lockPoints = (if js_ge lockTokenCount (Fin 5) then 100
                        else if js_ge lockTokenCount (Fin 1) then 50 else 0);
          vestPoints = (if js_ge vestTokenCount (Fin 5) then 100
                        else if js_ge vestTokenCount (Fin 1) then 50 else 0)
      in cardPoints + lockPoints + vestPoints)"

definition calculateNadoPoints :: "number \<Rightarrow> number \<Rightarrow> int" where
  "calculateNadoPoints totalDeposits totalVolume =
     (let depositPoints = (if js_ge totalDeposits (Fin 50000) then 1250
                           else if js_ge totalDeposits (Fin 10000) then 1000
                           else if js_ge totalDeposits (Fin 1000) then 600
                           else if js_ge totalDeposits (Fin 100) then 250
                           else if js_ge totalDeposits (Fin 1) then 50
                           else 0);
          volumePoints = (if js_ge totalVolume (Fin 25000000) then 1250
                          else if js_ge totalVolume (Fin 10000000) then 1150
                          else if js_ge totalVolume (Fin 5000000) then 1000
                          else if js_ge totalVolume (Fin 1000000) then 800
                          else if js_ge totalVolume (Fin 500000) then 550
                          else if js_ge totalVolume (Fin 100000) then 300
                          else if js_ge totalVolume (Fin 0) then 50
                          else 0)
      in depositPoints + volumePoints)"

definition calculateCopinkPoints :: "number \<Rightarrow> number \<Rightarrow> int" where
  "calculateCopinkPoints subaccountsFound totalVolume =
     (let volumePoints = (if js_ge totalVolume (Fin 10000) then 300
                          else if js_ge totalVolume (Fin 5000) then 250
                          else if js_ge totalVolume (Fin 1000) then 150
                          else if js_ge totalVolume (Fin 1) then 50
                          else 0);
          subaccountPoints = (if js_ge subaccountsFound (Fin 3) then 100
                              else if js_ge subaccountsFound (Fin 1) then 50 else 0)
      in volumePoints + subaccountPoints)"

definition calculateNft2mePoints :: "number \<Rightarrow> number \<Rightarrow> int" where
  "calculateNft2mePoints collectionCreatedCount nftMintedCount =
     (let collectionPoints = (if js_ge collectionCreatedCount (Fin 3) then 100
                              else if js_ge collectionCreatedCount (Fin 1) then 50 else 0);
          mintPoints = (if js_ge nftMintedCount (Fin 100) then 200
                        else if js_ge nftMintedCount (Fin 10) then 100
                        else if js_ge nftMintedCount (Fin 1) then 50
                        else 0)
      in collectionPoints + mintPoints)"

definition calculateNftTradingPoints :: "number \<Rightarrow> number \<Rightarrow> number \<Rightarrow> int" where
  "calculateNftTradingPoints squidCount netProtocolCount mintiqueCount =
     (let platformPoints0 = (0::int);
          platformPoints1 = (if js_gt squidCount (Fin 0) then platformPoints0 + 50
                             else platformPoints0);
          platformPoints2 = (if js_gt netProtocolCount (Fin 0) then platformPoints1 + 35
                             else platformPoints1);
          platformPoints = (if js_gt mintiqueCount (Fin 0) then platformPoints2 + 15
                            else platformPoints2);
          totalTrades = js_add (js_add squidCount netProtocolCount) mintiqueCount;
          tradePoints = (if js_ge totalTrades (Fin 10) then 300
                         else if js_ge totalTrades (Fin 5) then 150
                         else if js_ge totalTrades (Fin 1) then 50
                         else 0)
      in platformPoints + tradePoints)"

section \<open>Strings\<close>

text \<open>
  \<^verbatim>\<open>String.prototype.toLowerCase\<close> on the ASCII range, which is where contract
  addresses (\<^verbatim>\<open>0x\<close> followed by hexadecimal digits) live: the letters \<open>A\<close> to \<open>Z\<close> move
  to \<open>a\<close> to \<open>z\<close>, every other character stays.
\<close>

definition toLowerCaseChar :: "char \<Rightarrow> char" where
  "toLowerCaseChar c =
     (let n = (of_char c :: nat) in if 65 \<le> n \<and> n \<le> 90 then char_of (n + 32) else c)"

definition toLowerCase :: "string \<Rightarrow> string" where
  "toLowerCase s = map toLowerCaseChar s"

text \<open>\<^verbatim>\<open>s || '0'\<close> on an optional string: \<^verbatim>\<open>undefined\<close> and the empty string are falsy.\<close>

definition opt_or_str0 :: "string option \<Rightarrow> string" where
  "opt_or_str0 v = (case v of None \<Rightarrow> ''0'' | Some s \<Rightarrow> if s = [] then ''0'' else s)"

text \<open>Optional chaining \<^verbatim>\<open>data?.field\<close> on a payload that may be \<^verbatim>\<open>null\<close>.\<close>

definition fld :: "('r \<Rightarrow> 'v option) \<Rightarrow> 'r option \<Rightarrow> 'v option" where
  "fld f d = (case d of None \<Rightarrow> None | Some r \<Rightarrow> f r)"

text \<open>\<^verbatim>\<open>xs || []\<close> on an optional array (an array is always truthy).\<close>

definition opt_or_empty :: "'a list option \<Rightarrow> 'a list" where
  "opt_or_empty v = (case v of None \<Rightarrow> [] | Some xs \<Rightarrow> xs)"

section \<open>Registry data and the two caches\<close>

text \<open>
  A rank row as the store returns it and as the service keeps it. The store may deliver
  \<open>min_points\<close> and \<open>max_points\<close> as text or as numbers, so the row type is
  parametric in the type of the two bounds. The fields \<^verbatim>\<open>created_at\<close> and
  \<^verbatim>\<open>updated_at\<close>, which \<^verbatim>\<open>getCachedRanks\<close> stamps with the wall clock and nothing in
  the service reads, are left out.
\<close>

record RankInfo =
  name :: string
  color :: "string option"
  logo_url :: "string option"

record ('a, 'b) rank_row = RankInfo +
  rank_id :: int
  min_points :: 'a
  max_points :: 'b
  description :: "string option"
  display_order :: int
  is_active :: bool

type_synonym Rank = "(number, number option) rank_row"

type_synonym RawRank = "(string + number, (string + number) option) rank_row"

record MemeCoin =
  coin_address :: string

record RanksCache =
  ranks :: "Rank list"
  ranks_timestamp :: int

record MemeTokensCache =
  addresses :: "string set"
  meme_timestamp :: int

definition RANKS_CACHE_TTL :: int where
  "RANKS_CACHE_TTL = 60 * 1000"

definition MEME_TOKENS_CACHE_TTL :: int where
  "MEME_TOKENS_CACHE_TTL = 5 * 60 * 1000"

text \<open>
  The module-level state is the two cache slots. The queries the service sends to the
  backing store are recorded in \<open>storeQueries\<close>, in the order they are sent, so that "the
  store was not queried" is a statement about the state.
\<close>

datatype store_query = RanksQuery | MemeCoinsQuery

record world =
  ranksCache :: "RanksCache option"
  memeTokensCache :: "MemeTokensCache option"
  storeQueries :: "store_query list"

text \<open>
  What one call of a cache accessor observes from outside: the clock when the cached
  entry is checked (\<^verbatim>\<open>Date.now()\<close>, in milliseconds), the rows the store answers with
  (\<open>None\<close> when the query throws), and the clock when the new entry is stamped.
\<close>

record 'r store_call =
  clock_at_check :: int
  store_result :: "'r option"
  clock_at_stamp :: int

definition FALLBACK_MEME_TOKENS :: "string list" where
  "FALLBACK_MEME_TOKENS =
     [''0x0606fc632ee812ba970af72f8489baaa443c4b98'',
      ''0x20c69c12abf2b6f8d8ca33604dd25c700c7e70a5'',
      ''0xd642b49d10cc6e1bc1c6945725667c35e0875f22'',
      ''0x2a1bce657f919ac3f9ab50b2584cfc77563a02ec'',
      ''0x32bcb803f696c99eb263d60a05cafd8689026575'',
      ''0x62c99fac20b33b5423fdf9226179e973a8353e36'']"

text \<open>
  The \<^verbatim>\<open>try\<close>/\<^verbatim>\<open>catch\<close> part of \<^verbatim>\<open>getMemeTokenAddresses\<close>, reached when the cache slot is
  empty or stale: the store is queried; on success the lowercased addresses replace the
  cache slot, on failure the built-in list is returned and the slot is left as it was.
\<close>

definition refreshMemeTokenAddresses ::
  "world \<Rightarrow> MemeCoin list store_call \<Rightarrow> string set \<times> world" where
  "refreshMemeTokenAddresses w io =
     (let w1 = w\<lparr>storeQueries := storeQueries w @ [MemeCoinsQuery]\<rparr>
      in case store_result io of
           Some memeCoins \<Rightarrow>
             (let addrs = set (map (\<lambda>coin. toLowerCase (coin_address coin)) memeCoins)
              in (addrs,
                  w1\<lparr>memeTokensCache :=
                       Some \<lparr>addresses = addrs, meme_timestamp = clock_at_stamp io\<rparr>\<rparr>))
         | None \<Rightarrow> (set FALLBACK_MEME_TOKENS, w1))"

definition getMemeTokenAddresses ::
  "world \<Rightarrow> MemeCoin list store_call \<Rightarrow> string set \<times> world" where
  "getMemeTokenAddresses w io =
     (case memeTokensCache w of
        Some c \<Rightarrow>
          if clock_at_check io - meme_timestamp c < MEME_TOKENS_CACHE_TTL
          then (addresses c, w)
          else refreshMemeTokenAddresses w io
      | None \<Rightarrow> refreshMemeTokenAddresses w io)"

definition isMemeToken ::
  "world \<Rightarrow> MemeCoin list store_call \<Rightarrow> string \<Rightarrow> bool \<times> world" where
  "isMemeToken w io address =
     (let (memeTokens, w1) = getMemeTokenAddresses w io
      in (toLowerCase address \<in> memeTokens, w1))"

text \<open>
  \<^verbatim>\<open>typeof v === 'string' ? parseInt(v, 10) : v\<close>; the library function
  \<^verbatim>\<open>parseInt\<close> is a parameter.
\<close>

definition parsePoints :: "(string \<Rightarrow> number) \<Rightarrow> string + number \<Rightarrow> number" where
  "parsePoints parseInt10 v = (case v of Inl s \<Rightarrow> parseInt10 s | Inr n \<Rightarrow> n)"

definition parseRank :: "(string \<Rightarrow> number) \<Rightarrow> RawRank \<Rightarrow> Rank" where
  "parseRank parseInt10 r =
     \<lparr>name = name r, color = color r, logo_url = logo_url r, rank_id = rank_id r,
      min_points = parsePoints parseInt10 (min_points r),
      max_points = (case max_points r of
                      None \<Rightarrow> None
                    | Some v \<Rightarrow> Some (parsePoints parseInt10 v)),
      description = description r, display_order = display_order r,
      is_active = is_active r\<rparr>"

text \<open>The \<^verbatim>\<open>try\<close>/\<^verbatim>\<open>catch\<close> part of \<^verbatim>\<open>getCachedRanks\<close>.\<close>

definition refreshRanks ::
  "(string \<Rightarrow> number) \<Rightarrow> world \<Rightarrow> RawRank list store_call \<Rightarrow> Rank list \<times> world" where
  "refreshRanks parseInt10 w io =
     (let w1 = w\<lparr>storeQueries := storeQueries w @ [RanksQuery]\<rparr>
      in case store_result io of
           Some rawRanks \<Rightarrow>
             (let rs = map (parseRank parseInt10) rawRanks
              in (rs,
                  w1\<lparr>ranksCache :=
                       Some \<lparr>ranks = rs, ranks_timestamp = clock_at_stamp io\<rparr>\<rparr>))
         | None \<Rightarrow> ([], w1))"

definition getCachedRanks ::
  "(string \<Rightarrow> number) \<Rightarrow> world \<Rightarrow> RawRank list store_call \<Rightarrow> Rank list \<times> world" where
  "getCachedRanks parseInt10 w io =
     (case ranksCache w of
        Some c \<Rightarrow>
          if clock_at_check io - ranks_timestamp c < RANKS_CACHE_TTL
          then (ranks c, w)
          else refreshRanks parseInt10 w io
      | None \<Rightarrow> refreshRanks parseInt10 w io)"

text \<open>The \<^verbatim>\<open>for ... of\<close> loop of \<^verbatim>\<open>getRankForPoints\<close>, as recursion over the list.\<close>

fun getRankForPoints :: "Rank list \<Rightarrow> number \<Rightarrow> Rank option" where
  "getRankForPoints [] totalPoints = None"
| "getRankForPoints (rank # rest) totalPoints =
     (let minOk = js_ge totalPoints (min_points rank);
          maxOk = (case max_points rank of
                     None \<Rightarrow> True
                   | Some mx \<Rightarrow> js_le totalPoints mx)
      in if minOk \<and> maxOk then Some rank else getRankForPoints rest totalPoints)"

text \<open>
  The rule of the specification, in its own words: a points value belongs to a rank when
  it lies in the interval from \<open>min_points\<close> to \<open>max_points\<close>, an absent \<open>max_points\<close>
  meaning unbounded above.
\<close>

definition in_rank_interval :: "number \<Rightarrow> Rank \<Rightarrow> bool" where
  "in_rank_interval p r =
     (js_le (min_points r) p \<and>
      (case max_points r of None \<Rightarrow> True | Some mx \<Rightarrow> js_le p mx))"

section \<open>Source payloads\<close>

text \<open>
  The JSON shapes declared inside \<^verbatim>\<open>calculateWalletScore\<close>. Every optional field is an
  \<open>option\<close>; \<open>None\<close> is the absent field. Field names that several shapes share
  (\<^verbatim>\<open>total_count\<close>, \<^verbatim>\<open>totalTransactions\<close>, \<^verbatim>\<open>totalVolume\<close>, \<^verbatim>\<open>count\<close>, \<^verbatim>\<open>address\<close>)
  carry the shape's name in front.
\<close>

record NftCollection =
  collection_count :: "number option"

record TokenHolding =
  address :: string
  symbol :: "string option"
  usdValue :: number

record WalletStatsResponse =
  nftCollections :: "NftCollection list option"
  tokenHoldings :: "TokenHolding list option"
  balanceUsd :: "number option"
  ageDays :: "number option"
  totalTxns :: "number option"

record BridgeResponse =
  bridgedInUsd :: "number option"
  bridgedInCount :: "number option"
  bridgedOutUsd :: "number option"
  bridgedOutCount :: "number option"

record SwapResponse =
  totalUsd :: "number option"
  txCount :: "number option"

record TydroResponse =
  currentSupplyUsd :: "number option"
  currentBorrowUsd :: "number option"
  depositCount :: "number option"
  borrowCount :: "number option"

record CountResponse =
  total_count :: "number option"
  total_value :: "string option"

record ZnsResponse =
  zns_total_count :: "number option"
  deploy_count :: "number option"
  say_gm_count :: "number option"
  register_domain_count :: "number option"

record Nft2meResponse =
  collectionsCreated :: "number option"
  nftsMinted :: "number option"
  nft2me_totalTransactions :: "number option"

record ContractCount =
  contract_address :: string
  contract_count :: number

record NftTradingResponse =
  nft_total_count :: "number option"
  by_contract :: "ContractCount list option"

record MarvkResponse =
  lockTokenCount :: "number option"
  vestTokenCount :: "number option"
  cardMintedCount :: "number option"
  marvk_totalTransactions :: "number option"

record NadoResponse =
  totalDeposits :: "number option"
  nado_totalTransactions :: "number option"
  nadoVolumeUSD :: "number option"

record CopinkResponse =
  copink_totalVolume :: "number option"
  subaccountsFound :: "number option"

section \<open>The response\<close>

record Scored =
  points :: int

record NativeEntry = Scored +
  metric_value :: number

record PlatformEntry = Scored +
  tx_count :: number
  usd_volume :: number

text \<open>
  The two objects of the breakdown keep their keys in insertion order; \<^verbatim>\<open>obj[k] = v\<close>
  replaces the entry of an existing key in place and appends a new key at the end.
\<close>

record WalletPointsBreakdown =
  native :: "(string \<times> NativeEntry) list"
  platforms :: "(string \<times> PlatformEntry) list"

definition assign :: "(string \<times> 'v) list \<Rightarrow> string \<Rightarrow> 'v \<Rightarrow> (string \<times> 'v) list" where
  "assign obj k v = AList.update k v obj"

record WalletScoreResponse =
  wallet_address :: string
  total_points :: int
  rank :: "RankInfo option"
  breakdown :: WalletPointsBreakdown
  last_updated :: int

section \<open>Fetching the sources\<close>

text \<open>
  One \<^verbatim>\<open>fetch\<close> either rejects (a transport failure) or resolves to a response with its
  \<^verbatim>\<open>ok\<close> flag. Reading the body of a response with \<^verbatim>\<open>json()\<close> either throws (a body that
  is not JSON) or yields the parsed value, where \<open>None\<close> stands for \<^verbatim>\<open>null\<close> (and the
  other falsy values) and \<open>Some\<close> for an object with the fields it has.
\<close>

datatype 'a json_outcome = JsonThrows | JsonValue "'a option"

datatype 'a fetch_outcome = Rejects | Resolves bool "'a json_outcome"

datatype error = FetchRejected | JsonSyntaxError | Failure string

text \<open>
  Everything one call of \<^verbatim>\<open>calculateWalletScore\<close> observes from outside: the seventeen
  settled fetches, what the store and the clock answer to the three calls of
  \<^verbatim>\<open>getMemeTokenAddresses\<close> and to the call of \<^verbatim>\<open>getCachedRanks\<close>, the clock at the end, and
  the two library functions \<^verbatim>\<open>parseFloat\<close> and \<^verbatim>\<open>parseInt\<close> (radix 10).
\<close>

record env =
  walletStatsRes :: "WalletStatsResponse fetch_outcome"
  bridgeRes :: "BridgeResponse fetch_outcome"
  swapRes :: "SwapResponse fetch_outcome"
  tydroRes :: "TydroResponse fetch_outcome"
  gmRes :: "CountResponse fetch_outcome"
  inkyPumpCreatedRes :: "CountResponse fetch_outcome"
  inkyPumpBuyRes :: "CountResponse fetch_outcome"
  inkyPumpSellRes :: "CountResponse fetch_outcome"
  shelliesRafflesRes :: "CountResponse fetch_outcome"
  shelliesPayToPlayRes :: "CountResponse fetch_outcome"
  shelliesStakingRes :: "CountResponse fetch_outcome"
  znsRes :: "ZnsResponse fetch_outcome"
  nft2meRes :: "Nft2meResponse fetch_outcome"
  nftTradingRes :: "NftTradingResponse fetch_outcome"
  marvkRes :: "MarvkResponse fetch_outcome"
  nadoRes :: "NadoResponse fetch_outcome"
  copinkRes :: "CopinkResponse fetch_outcome"
  memeCall1 :: "MemeCoin list store_call"
  memeCall2 :: "MemeCoin list store_call"
  memeCall3 :: "MemeCoin list store_call"
  ranksCall :: "RawRank list store_call"
  clock_at_return :: int
  parseFloat :: "string \<Rightarrow> number"
  parseInt10 :: "string \<Rightarrow> number"

definition rejected :: "'a fetch_outcome \<Rightarrow> bool" where
  "rejected f = (case f of Rejects \<Rightarrow> True | Resolves ok j \<Rightarrow> False)"

text \<open>\<^verbatim>\<open>res.ok ? await res.json() : null\<close> throws exactly when the response is ok and its body does not parse.\<close>

definition json_throws :: "'a fetch_outcome \<Rightarrow> bool" where
  "json_throws f =
     (case f of
        Rejects \<Rightarrow> False
      | Resolves ok j \<Rightarrow> ok \<and> (case j of JsonThrows \<Rightarrow> True | JsonValue v \<Rightarrow> False))"

definition data_of :: "'a fetch_outcome \<Rightarrow> 'a option" where
  "data_of f =
     (case f of
        Rejects \<Rightarrow> None
      | Resolves ok j \<Rightarrow>
          if ok then (case j of JsonThrows \<Rightarrow> None | JsonValue v \<Rightarrow> v) else None)"

text \<open>\<^verbatim>\<open>Promise.all\<close> rejects as soon as one of the fetches rejects.\<close>

definition any_rejected :: "env \<Rightarrow> bool" where
  "any_rejected env =
     (rejected (walletStatsRes env) \<or>
      rejected (bridgeRes env) \<or>
      rejected (swapRes env) \<or>
      rejected (tydroRes env) \<or>
      rejected (gmRes env) \<or>
      rejected (inkyPumpCreatedRes env) \<or>
      rejected (inkyPumpBuyRes env) \<or>
      rejected (inkyPumpSellRes env) \<or>
      rejected (shelliesRafflesRes env) \<or>
      rejected (shelliesPayToPlayRes env) \<or>
      rejected (shelliesStakingRes env) \<or>
      rejected (znsRes env) \<or>
      rejected (nft2meRes env) \<or>
      rejected (nftTradingRes env) \<or>
      rejected (marvkRes env) \<or>
      rejected (nadoRes env) \<or>
      rejected (copinkRes env))"

definition any_json_throws :: "env \<Rightarrow> bool" where
  "any_json_throws env =
     (json_throws (walletStatsRes env) \<or>
      json_throws (bridgeRes env) \<or>
      json_throws (swapRes env) \<or>
      json_throws (tydroRes env) \<or>
      json_throws (gmRes env) \<or>
      json_throws (inkyPumpCreatedRes env) \<or>
      json_throws (inkyPumpBuyRes env) \<or>
      json_throws (inkyPumpSellRes env) \<or>
      json_throws (shelliesRafflesRes env) \<or>
      json_throws (shelliesPayToPlayRes env) \<or>
      json_throws (shelliesStakingRes env) \<or>
      json_throws (znsRes env) \<or>
      json_throws (nft2meRes env) \<or>
      json_throws (nftTradingRes env) \<or>
      json_throws (marvkRes env) \<or>
      json_throws (nadoRes env) \<or>
      json_throws (copinkRes env))"

section \<open>Token holdings\<close>

text \<open>
  The sum \<^verbatim>\<open>reduce((sum, token) => sum + (Number(token.usdValue) || 0), 0)\<close> over a list
  of holdings.
\<close>

definition sumUsd :: "TokenHolding list \<Rightarrow> number" where
  "sumUsd holdings = foldl (\<lambda>sum token. js_add sum (or_zero (usdValue token))) (Fin 0) holdings"

definition calculateTokenHoldingsPoints ::
  "world \<Rightarrow> MemeCoin list store_call \<Rightarrow> TokenHolding list \<Rightarrow> int \<times> world" where
  "calculateTokenHoldingsPoints w io holdings =
     (let (memeTokens, w1) = getMemeTokenAddresses w io;
          totalUsd = sumUsd (filter (\<lambda>token. toLowerCase (address token) \<notin> memeTokens) holdings)
      in (if isNaN totalUsd then 0
          else if js_ge totalUsd (Fin 10000) then 400
          else if js_ge totalUsd (Fin 1000) then 300
          else if js_ge totalUsd (Fin 100) then 150
          else if js_ge totalUsd (Fin 1) then 50
          else 0, w1))"

definition calculateMemeCoinsPoints ::
  "world \<Rightarrow> MemeCoin list store_call \<Rightarrow> TokenHolding list \<Rightarrow> int \<times> world" where
  "calculateMemeCoinsPoints w io holdings =
     (let (memeTokens, w1) = getMemeTokenAddresses w io;
          totalUsd = sumUsd (filter (\<lambda>token. toLowerCase (address token) \<in> memeTokens) holdings)
      in (if isNaN totalUsd then 0
          else if js_ge totalUsd (Fin 1000) then 300
          else if js_ge totalUsd (Fin 500) then 200
          else if js_ge totalUsd (Fin 100) then 100
          else if js_ge totalUsd (Fin 1) then 50
          else 0, w1))"

section \<open>The score aggregator\<close>

definition NFT_CONTRACTS_squid :: string where
  "NFT_CONTRACTS_squid = ''0x9ebf93fdba9f32accab3d6716322dccd617a78f3''"

definition NFT_CONTRACTS_netProtocol :: string where
  "NFT_CONTRACTS_netProtocol = ''0xd00c96804e9ff35f10c7d2a92239c351ff3f94e5''"

definition NFT_CONTRACTS_mintique :: string where
  "NFT_CONTRACTS_mintique = ''0xbd6a027b85fd5285b1623563bbef6fadbe396afb''"

text \<open>\<^verbatim>\<open>byContract.find(c => c.contract_address === a)?.count || 0\<close>\<close>

definition countFor :: "ContractCount list \<Rightarrow> string \<Rightarrow> number" where
  "countFor byContract a =
     opt_or_zero (map_option contract_count (find (\<lambda>c. contract_address c = a) byContract))"

text \<open>
  \<^verbatim>\<open>(walletStats.nftCollections || []).reduce((sum, col) => sum + (col.count || 0), 0)\<close>
\<close>

definition supportedNftCountOf :: "WalletStatsResponse \<Rightarrow> number" where
  "supportedNftCountOf walletStats =
     foldl (\<lambda>sum col. js_add sum (opt_or_zero (collection_count col))) (Fin 0)
       (opt_or_empty (nftCollections walletStats))"

text \<open>
  The five entries under \<^verbatim>\<open>breakdown.native\<close>, from the wallet-stats payload. The three
  reads of the meme-token set go through the cache, so the state is threaded. The result
  is the object, the points added to the total so far, and the state.
\<close>

definition scoreNative ::
  "world \<Rightarrow> env \<Rightarrow> WalletStatsResponse \<Rightarrow> (string \<times> NativeEntry) list \<times> int \<times> world" where
  "scoreNative w env walletStats =
     (let native0 = [];
          totalPoints0 = 0;
          supportedNftCount = supportedNftCountOf walletStats;
          nftPoints = calculateNftCollectionsPoints supportedNftCount;
          native1 = assign native0 ''nft_collections''
                      \<lparr>points = nftPoints, metric_value = supportedNftCount\<rparr>;
          totalPoints1 = totalPoints0 + nftPoints;
          holdings = opt_or_empty (tokenHoldings walletStats);
          nativeEthUsd = opt_or_zero (balanceUsd walletStats);
          allHoldings = holdings @
            [\<lparr>address = ''0x0000000000000000000000000000000000000000'',
              symbol = Some ''ETH'', usdValue = nativeEthUsd\<rparr>];
          (tokenPoints, w1) = calculateTokenHoldingsPoints w (memeCall1 env) allHoldings;
          totalTokenValue = sumUsd allHoldings;
          native2 = assign native1 ''erc20_tokens''
                      \<lparr>points = tokenPoints, metric_value = totalTokenValue\<rparr>;
          totalPoints2 = totalPoints1 + tokenPoints;
          (memePoints, w2) = calculateMemeCoinsPoints w1 (memeCall2 env) holdings;
          (memeTokens, w3) = getMemeTokenAddresses w2 (memeCall3 env);
          memeTokenCount =
            Fin (real (length (filter (\<lambda>t. toLowerCase (address t) \<in> memeTokens) holdings)));
          native3 = assign native2 ''meme_coins''
                      \<lparr>points = memePoints, metric_value = memeTokenCount\<rparr>;
          totalPoints3 = totalPoints2 + memePoints;
          agePoints = calculateWalletAgePoints (opt_or_zero (ageDays walletStats));
          native4 = assign native3 ''wallet_age''
                      \<lparr>points = agePoints, metric_value = opt_or_zero (ageDays walletStats)\<rparr>;
          totalPoints4 = totalPoints3 + agePoints;
          txPoints = calculateTotalTxPoints (opt_or_zero (totalTxns walletStats));
          native5 = assign native4 ''total_tx''
                      \<lparr>points = txPoints, metric_value = opt_or_zero (totalTxns walletStats)\<rparr>;
          totalPoints5 = totalPoints4 + txPoints
      in (native5, totalPoints5, w3))"

text \<open>
  The thirteen entries under \<^verbatim>\<open>breakdown.platforms\<close>, from the sixteen other payloads
  (each \<open>None\<close> when its response was not ok). The result is the object and the points
  added to the total.
\<close>

definition scorePlatforms :: "env \<Rightarrow> (string \<times> PlatformEntry) list \<times> int" where
  "scorePlatforms env =
     (let bridgeData = data_of (bridgeRes env);
          swapData = data_of (swapRes env);
          tydroData = data_of (tydroRes env);
          gmData = data_of (gmRes env);
          inkyPumpCreated = data_of (inkyPumpCreatedRes env);
          inkyPumpBuy = data_of (inkyPumpBuyRes env);
          inkyPumpSell = data_of (inkyPumpSellRes env);
          shelliesRaffles = data_of (shelliesRafflesRes env);
          shelliesPayToPlay = data_of (shelliesPayToPlayRes env);
          shelliesStaking = data_of (shelliesStakingRes env);
          znsData = data_of (znsRes env);
          nft2meData = data_of (nft2meRes env);
          nftTradingData = data_of (nftTradingRes env);
          marvkData = data_of (marvkRes env);
          nadoData = data_of (nadoRes env);
          copinkData = data_of (copinkRes env);
          platforms0 = [];
          totalPoints0 = 0;
          bridgeInUsd = opt_or_zero (fld bridgedInUsd bridgeData);
          bridgeOutUsd = opt_or_zero (fld bridgedOutUsd bridgeData);
          bridgeInPoints = calculateBridgeInPoints bridgeInUsd;
          bridgeOutPoints = calculateBridgeOutPoints bridgeOutUsd;
          platforms1 = assign platforms0 ''bridge_in''
            \<lparr>points = bridgeInPoints, tx_count = opt_or_zero (fld bridgedInCount bridgeData),
             usd_volume = bridgeInUsd\<rparr>;
          platforms2 = assign platforms1 ''bridge_out''
            \<lparr>points = bridgeOutPoints, tx_count = opt_or_zero (fld bridgedOutCount bridgeData),
             usd_volume = bridgeOutUsd\<rparr>;
          totalPoints1 = totalPoints0 + (bridgeInPoints + bridgeOutPoints);
          gmCount = opt_or_zero (fld total_count gmData);
          gmPoints = calculateGmPoints gmCount;
          platforms3 = assign platforms2 ''gm''
            \<lparr>points = gmPoints, tx_count = gmCount, usd_volume = Fin 0\<rparr>;
          totalPoints2 = totalPoints1 + gmPoints;
          inkyPumpCreatedCount = opt_or_zero (fld total_count inkyPumpCreated);
          inkyPumpBuyUsd = parseFloat env (opt_or_str0 (fld total_value inkyPumpBuy));
          inkyPumpSellUsd = parseFloat env (opt_or_str0 (fld total_value inkyPumpSell));
          inkyPumpPoints =
            calculateInkyPumpPoints inkyPumpCreatedCount inkyPumpBuyUsd inkyPumpSellUsd;
          inkyPumpTotalUsd = js_add inkyPumpBuyUsd inkyPumpSellUsd;
          platforms4 = assign platforms3 ''inkypump''
            \<lparr>points = inkyPumpPoints,
             tx_count = js_add (js_add inkyPumpCreatedCount
                                  (opt_or_zero (fld total_count inkyPumpBuy)))
                          (opt_or_zero (fld total_count inkyPumpSell)),
             usd_volume = inkyPumpTotalUsd\<rparr>;
          totalPoints3 = totalPoints2 + inkyPumpPoints;
          tydroSupplyUsd = opt_or_zero (fld currentSupplyUsd tydroData);
          tydroBorrowUsd = opt_or_zero (fld currentBorrowUsd tydroData);
          tydroPoints = calculateTydroPoints tydroSupplyUsd tydroBorrowUsd;
          platforms5 = assign platforms4 ''tydro''
            \<lparr>points = tydroPoints,
             tx_count = js_add (opt_or_zero (fld depositCount tydroData))
                          (opt_or_zero (fld borrowCount tydroData)),
             usd_volume = js_add tydroSupplyUsd tydroBorrowUsd\<rparr>;
          totalPoints4 = totalPoints3 + tydroPoints;
          swapUsd = opt_or_zero (fld totalUsd swapData);
          swapPoints = calculateSwapVolumePoints swapUsd;
          platforms6 = assign platforms5 ''swap''
            \<lparr>points = swapPoints, tx_count = opt_or_zero (fld txCount swapData),
             usd_volume = swapUsd\<rparr>;
          totalPoints5 = totalPoints4 + swapPoints;
          shelliesPlayedCount = opt_or_zero (fld total_count shelliesPayToPlay);
          shelliesStakedCount = opt_or_zero (fld total_count shelliesStaking);
          shelliesRafflesCount = opt_or_zero (fld total_count shelliesRaffles);
          shelliesPoints =
            calculateShelliesPoints shelliesPlayedCount shelliesStakedCount shelliesRafflesCount;
          platforms7 = assign platforms6 ''shellies''
            \<lparr>points = shelliesPoints,
             tx_count = js_add (js_add shelliesPlayedCount shelliesStakedCount)
                          shelliesRafflesCount,
             usd_volume = Fin 0\<rparr>;
          totalPoints6 = totalPoints5 + shelliesPoints;
          znsDeployCount = opt_or_zero (fld deploy_count znsData);
          znsSaidGmCount = opt_or_zero (fld say_gm_count znsData);
          znsRegisterCount = opt_or_zero (fld register_domain_count znsData);
          znsPoints = calculateZnsPoints znsDeployCount znsSaidGmCount znsRegisterCount;
          platforms8 = assign platforms7 ''zns''
            \<lparr>points = znsPoints, tx_count = opt_or_zero (fld zns_total_count znsData),
             usd_volume = Fin 0\<rparr>;
          totalPoints7 = totalPoints6 + znsPoints;
          nft2meCollectionsCount = opt_or_zero (fld collectionsCreated nft2meData);
          nft2meMintedCount = opt_or_zero (fld nftsMinted nft2meData);
          nft2mePoints = calculateNft2mePoints nft2meCollectionsCount nft2meMintedCount;
          platforms9 = assign platforms8 ''nft2me''
            \<lparr>points = nft2mePoints,
             tx_count = opt_or_zero (fld nft2me_totalTransactions nft2meData),
             usd_volume = Fin 0\<rparr>;
          totalPoints8 = totalPoints7 + nft2mePoints;
          byContract = opt_or_empty (fld by_contract nftTradingData);
          squidCount = countFor byContract NFT_CONTRACTS_squid;
          netProtocolCount = countFor byContract NFT_CONTRACTS_netProtocol;
          mintiqueCount = countFor byContract NFT_CONTRACTS_mintique;
          nftTradingPoints = calculateNftTradingPoints squidCount netProtocolCount mintiqueCount;
          platforms10 = assign platforms9 ''nft_trading''
            \<lparr>points = nftTradingPoints,
             tx_count = opt_or_zero (fld nft_total_count nftTradingData),
             usd_volume = Fin 0\<rparr>;
          totalPoints9 = totalPoints8 + nftTradingPoints;
          marvkCardMinted = opt_or_zero (fld cardMintedCount marvkData);
          marvkLockCount = opt_or_zero (fld lockTokenCount marvkData);
          marvkVestCount = opt_or_zero (fld vestTokenCount marvkData);
          marvkPoints = calculateMarvkPoints marvkCardMinted marvkLockCount marvkVestCount;
          platforms11 = assign platforms10 ''marvk''
            \<lparr>points = marvkPoints,
             tx_count = opt_or_zero (fld marvk_totalTransactions marvkData),
             usd_volume = Fin 0\<rparr>;
          totalPoints10 = totalPoints9 + marvkPoints;
          nadoTotalDeposits = opt_or_zero (fld totalDeposits nadoData);
          nadoTotalVolume = opt_or_zero (fld nadoVolumeUSD nadoData);
          nadoPoints = calculateNadoPoints nadoTotalDeposits nadoTotalVolume;
          platforms12 = assign platforms11 ''nado''
            \<lparr>points = nadoPoints,
             tx_count = opt_or_zero (fld nado_totalTransactions nadoData),
             usd_volume = nadoTotalVolume\<rparr>;
          totalPoints11 = totalPoints10 + nadoPoints;
          copinkSubaccounts = opt_or_zero (fld subaccountsFound copinkData);
          copinkVolume = opt_or_zero (fld copink_totalVolume copinkData);
          copinkPoints = calculateCopinkPoints copinkSubaccounts copinkVolume;
          platforms13 = assign platforms12 ''copink''
            \<lparr>points = copinkPoints, tx_count = copinkSubaccounts, usd_volume = copinkVolume\<rparr>;
          totalPoints12 = totalPoints11 + copinkPoints
      in (platforms13, totalPoints12))"

text \<open>
  \<^verbatim>\<open>calculateWalletScore\<close>. The \<^verbatim>\<open>catch\<close> block logs and rethrows, so every error of the
  body is the error of the call. The total is the running sum over the native entries
  followed by the platform entries, in the order of the source.
\<close>

definition calculateWalletScore ::
  "world \<Rightarrow> env \<Rightarrow> string \<Rightarrow> (error + WalletScoreResponse) \<times> world" where
  "calculateWalletScore w env walletAddress =
     (let wallet = toLowerCase walletAddress
      in if any_rejected env then (Inl FetchRejected, w)
         else if any_json_throws env then (Inl JsonSyntaxError, w)
         else
           (case data_of (walletStatsRes env) of
              None \<Rightarrow> (Inl (Failure ''Failed to fetch wallet stats''), w)
            | Some walletStats \<Rightarrow>
                (let (nativeEntries, nativePoints, w3) = scoreNative w env walletStats;
                     (platformEntries, platformPoints) = scorePlatforms env;
                     totalPoints = nativePoints + platformPoints;
                     (rankList, w4) = getCachedRanks (parseInt10 env) w3 (ranksCall env);
                     found = getRankForPoints rankList (Fin (real_of_int totalPoints))
                 in (Inr \<lparr>wallet_address = wallet,
                          total_points = totalPoints,
                          rank = (case found of
                                    None \<Rightarrow> None
                                  | Some r \<Rightarrow>
                                      Some \<lparr>name = name r, color = color r,
                                            logo_url = logo_url r\<rparr>),
                          breakdown = \<lparr>native = nativeEntries, platforms = platformEntries\<rparr>,
                          last_updated = clock_at_return env\<rparr>, w4))))"

section \<open>Vocabulary of the properties\<close>

text \<open>
  An input that is \<open>NaN\<close>, negative, zero, or below the threshold \<open>t\<close> of the lowest
  bracket.
\<close>

definition out_of_range :: "real \<Rightarrow> number \<Rightarrow> bool" where
  "out_of_range t x = (isNaN x \<or> js_lt x (Fin 0) \<or> x = Fin 0 \<or> js_lt x (Fin t))"

text \<open>Two addresses that differ in letter case only.\<close>

definition same_ignoring_case :: "string \<Rightarrow> string \<Rightarrow> bool" where
  "same_ignoring_case a b = list_all2 (\<lambda>c d. toLowerCaseChar c = toLowerCaseChar d) a b"

text \<open>A cache slot that is empty, or whose entry is at least the time to live old.\<close>

definition ranks_stale :: "world \<Rightarrow> int \<Rightarrow> bool" where
  "ranks_stale w now =
     (case ranksCache w of None \<Rightarrow> True | Some c \<Rightarrow> RANKS_CACHE_TTL \<le> now - ranks_timestamp c)"

definition meme_stale :: "world \<Rightarrow> int \<Rightarrow> bool" where
  "meme_stale w now =
     (case memeTokensCache w of
        None \<Rightarrow> True
      | Some c \<Rightarrow> MEME_TOKENS_CACHE_TTL \<le> now - meme_timestamp c)"

text \<open>A source that answered with a status outside 2xx.\<close>

definition not_ok :: "'a fetch_outcome \<Rightarrow> bool" where
  "not_ok f = (case f of Rejects \<Rightarrow> False | Resolves ok j \<Rightarrow> ok = False)"

text \<open>
  The primary source is unusable: the fetch is rejected, the status is outside 2xx, the
  body does not parse, or the body is \<^verbatim>\<open>null\<close>.
\<close>

definition primary_unusable :: "'a fetch_outcome \<Rightarrow> bool" where
  "primary_unusable f =
     (case f of
        Rejects \<Rightarrow> True
      | Resolves ok j \<Rightarrow>
          (if ok then (case j of JsonThrows \<Rightarrow> True | JsonValue v \<Rightarrow> v = None) else True))"

definition zero_entry :: PlatformEntry where
  "zero_entry = \<lparr>points = 0, tx_count = Fin 0, usd_volume = Fin 0\<rparr>"

definition native_keys :: "string list" where
  "native_keys = [''nft_collections'', ''erc20_tokens'', ''meme_coins'', ''wallet_age'', ''total_tx'']"

definition platform_keys :: "string list" where
  "platform_keys =
     [''bridge_in'', ''bridge_out'', ''gm'', ''inkypump'', ''tydro'', ''swap'', ''shellies'',
      ''zns'', ''nft2me'', ''nft_trading'', ''marvk'', ''nado'', ''copink'']"

text \<open>The points recorded in an object of the breakdown, summed over its entries.\<close>

definition sum_points :: "(string \<times> ('a Scored_scheme)) list \<Rightarrow> int" where
  "sum_points obj = sum_list (map (\<lambda>kv. points (snd kv)) obj)"

section \<open>Example inputs\<close>

definition example_parse :: "string \<Rightarrow> number" where
  "example_parse s = (if s = ''0'' then Fin 0 else if s = ''1000'' then Fin 1000 else NaN)"

definition example_world :: world where
  "example_world = \<lparr>ranksCache = None, memeTokensCache = None, storeQueries = []\<rparr>"

definition example_stats :: WalletStatsResponse where
  "example_stats =
     \<lparr>nftCollections = Some [\<lparr>collection_count = Some (Fin 4)\<rparr>,
                             \<lparr>collection_count = None\<rparr>,
                             \<lparr>collection_count = Some (Fin 3)\<rparr>],
      tokenHoldings = Some [\<lparr>address = ''0x0606FC632EE812BA970AF72F8489BAAA443C4B98'',
                             symbol = Some ''ANITA'', usdValue = Fin 120\<rparr>],
      balanceUsd = Some (Fin 40),
      ageDays = Some (Fin 400),
      totalTxns = Some (Fin 150)\<rparr>"

definition failing_store :: "'r store_call" where
  "failing_store = \<lparr>clock_at_check = 1000, store_result = None, clock_at_stamp = 1001\<rparr>"

text \<open>
  Wallet stats answer with \<open>example_stats\<close>; each of the sixteen other sources answers
  with HTTP 500; the store is down.
\<close>

definition degraded_env :: env where
  "degraded_env =
     \<lparr>walletStatsRes = Resolves True (JsonValue (Some example_stats)),
      bridgeRes = Resolves False JsonThrows,
      swapRes = Resolves False JsonThrows,
      tydroRes = Resolves False JsonThrows,
      gmRes = Resolves False JsonThrows,
      inkyPumpCreatedRes = Resolves False JsonThrows,
      inkyPumpBuyRes = Resolves False JsonThrows,
      inkyPumpSellRes = Resolves False JsonThrows,
      shelliesRafflesRes = Resolves False JsonThrows,
      shelliesPayToPlayRes = Resolves False JsonThrows,
      shelliesStakingRes = Resolves False JsonThrows,
      znsRes = Resolves False JsonThrows,
      nft2meRes = Resolves False JsonThrows,
      nftTradingRes = Resolves False JsonThrows,
      marvkRes = Resolves False JsonThrows,
      nadoRes = Resolves False JsonThrows,
      copinkRes = Resolves False JsonThrows,
      memeCall1 = failing_store,
      memeCall2 = failing_store,
      memeCall3 = failing_store,
      ranksCall = failing_store,
      clock_at_return = 1002,
      parseFloat = example_parse,
      parseInt10 = example_parse\<rparr>"

definition example_bridge :: BridgeResponse where
  "example_bridge =
     \<lparr>bridgedInUsd = Some (Fin 1500), bridgedInCount = Some (Fin 2),
      bridgedOutUsd = None, bridgedOutCount = None\<rparr>"

definition example_rank :: "string \<Rightarrow> real \<Rightarrow> number option \<Rightarrow> Rank" where
  "example_rank n lo hi =
     \<lparr>name = n, color = None, logo_url = None, rank_id = 0, min_points = Fin lo,
      max_points = hi, description = None, display_order = 0, is_active = True\<rparr>"

definition example_ranks :: "Rank list" where
  "example_ranks =
     [example_rank ''Bronze'' 0 (Some (Fin 999)),
      example_rank ''Silver'' 1000 (Some (Fin 4999)),
      example_rank ''Gold'' 5000 None]"

text \<open>A state whose two cache slots were filled at time 0, and a call at a given time.\<close>

definition warm_world :: world where
  "warm_world =
     \<lparr>ranksCache = Some \<lparr>ranks = example_ranks, ranks_timestamp = 0\<rparr>,
      memeTokensCache =
        Some \<lparr>addresses = set [''0x20c69c12abf2b6f8d8ca33604dd25c700c7e70a5''],
              meme_timestamp = 0\<rparr>,
      storeQueries = []\<rparr>"

definition store_call_at :: "int \<Rightarrow> 'r option \<Rightarrow> 'r store_call" where
  "store_call_at t r = \<lparr>clock_at_check = t, store_result = r, clock_at_stamp = t + 5\<rparr>"

section \<open>Order facts about JavaScript numbers\<close>

lemma ge_mono: "js_le x y \<Longrightarrow> js_ge x (Fin c) \<Longrightarrow> js_ge y (Fin c)"
  by (cases x; cases y) (auto simp: js_ge_def)

lemma le_mono: "js_le x y \<Longrightarrow> js_le y (Fin c) \<Longrightarrow> js_le x (Fin c)"
  by (cases x; cases y) auto

lemma gt_mono: "js_le x y \<Longrightarrow> js_gt x (Fin c) \<Longrightarrow> js_gt y (Fin c)"
  by (cases x; cases y) (auto simp: js_gt_def)

lemma add_ge_mono1: "js_le x y \<Longrightarrow> js_ge (js_add x z) (Fin c) \<Longrightarrow> js_ge (js_add y z) (Fin c)"
  by (cases x; cases y; cases z) (auto simp: js_ge_def)

lemma add_ge_mono2: "js_le x y \<Longrightarrow> js_ge (js_add z x) (Fin c) \<Longrightarrow> js_ge (js_add z y) (Fin c)"
  by (cases x; cases y; cases z) (auto simp: js_ge_def)

lemma add3_ge_mono1:
  "js_le x y \<Longrightarrow> js_ge (js_add (js_add x b) c) (Fin t) \<Longrightarrow> js_ge (js_add (js_add y b) c) (Fin t)"
  by (cases x; cases y; cases b; cases c) (auto simp: js_ge_def)

lemma add3_ge_mono2:
  "js_le x y \<Longrightarrow> js_ge (js_add (js_add a x) c) (Fin t) \<Longrightarrow> js_ge (js_add (js_add a y) c) (Fin t)"
  by (cases x; cases y; cases a; cases c) (auto simp: js_ge_def)

lemma add3_ge_mono3:
  "js_le x y \<Longrightarrow> js_ge (js_add (js_add a b) x) (Fin t) \<Longrightarrow> js_ge (js_add (js_add a b) y) (Fin t)"
  by (cases x; cases y; cases "js_add a b") (auto simp: js_ge_def)

lemma mono_NftCollections:
  "js_le x y \<Longrightarrow> calculateNftCollectionsPoints x \<le> calculateNftCollectionsPoints y"
  unfolding calculateNftCollectionsPoints_def by (auto dest: ge_mono)

lemma mono_WalletAge: "js_le x y \<Longrightarrow> calculateWalletAgePoints x \<le> calculateWalletAgePoints y"
  unfolding calculateWalletAgePoints_def by (auto dest: le_mono)

lemma mono_TotalTx: "js_le x y \<Longrightarrow> calculateTotalTxPoints x \<le> calculateTotalTxPoints y"
  unfolding calculateTotalTxPoints_def by (auto dest: le_mono)

lemma mono_BridgeVolume:
  "js_le x y \<Longrightarrow> getBridgeVolumeTierPoints x \<le> getBridgeVolumeTierPoints y"
  unfolding getBridgeVolumeTierPoints_def by (auto dest: ge_mono)

lemma mono_Gm: "js_le x y \<Longrightarrow> calculateGmPoints x \<le> calculateGmPoints y"
  unfolding calculateGmPoints_def by (auto dest: ge_mono)

lemma mono_InkyPump:
  assumes "js_le x y"
  shows "calculateInkyPumpPoints x a b \<le> calculateInkyPumpPoints y a b"
    and "calculateInkyPumpPoints a x b \<le> calculateInkyPumpPoints a y b"
    and "calculateInkyPumpPoints a b x \<le> calculateInkyPumpPoints a b y"
  using assms unfolding calculateInkyPumpPoints_def Let_def
  by (auto dest: ge_mono add_ge_mono1 add_ge_mono2)

lemma mono_TydroSupply: "js_le x y \<Longrightarrow> getTydroSupplyTierPoints x \<le> getTydroSupplyTierPoints y"
  unfolding getTydroSupplyTierPoints_def by (auto dest: ge_mono)

lemma mono_TydroBorrow: "js_le x y \<Longrightarrow> getTydroBorrowTierPoints x \<le> getTydroBorrowTierPoints y"
  unfolding getTydroBorrowTierPoints_def by (auto dest: ge_mono)

lemma mono_Tydro:
  assumes "js_le x y"
  shows "calculateTydroPoints x a \<le> calculateTydroPoints y a"
    and "calculateTydroPoints a x \<le> calculateTydroPoints a y"
  using mono_TydroSupply [OF assms] mono_TydroBorrow [OF assms]
  by (simp_all add: calculateTydroPoints_def)

lemma mono_Swap: "js_le x y \<Longrightarrow> calculateSwapVolumePoints x \<le> calculateSwapVolumePoints y"
  unfolding calculateSwapVolumePoints_def by (auto dest: ge_mono)

lemma mono_Shellies:
  assumes "js_le x y"
  shows "calculateShelliesPoints x a b \<le> calculateShelliesPoints y a b"
    and "calculateShelliesPoints a x b \<le> calculateShelliesPoints a y b"
    and "calculateShelliesPoints a b x \<le> calculateShelliesPoints a b y"
  using assms unfolding calculateShelliesPoints_def Let_def
  by (auto dest: ge_mono)

lemma mono_Zns:
  assumes "js_le x y"
  shows "calculateZnsPoints x a b \<le> calculateZnsPoints y a b"
    and "calculateZnsPoints a x b \<le> calculateZnsPoints a y b"
    and "calculateZnsPoints a b x \<le> calculateZnsPoints a b y"
  using assms unfolding calculateZnsPoints_def Let_def
  by (auto dest: ge_mono)

lemma mono_Marvk:
  assumes "js_le x y"
  shows "calculateMarvkPoints x a b \<le> calculateMarvkPoints y a b"
    and "calculateMarvkPoints a x b \<le> calculateMarvkPoints a y b"
    and "calculateMarvkPoints a b x \<le> calculateMarvkPoints a b y"
  using assms unfolding calculateMarvkPoints_def Let_def
  by (auto dest: ge_mono)

lemma mono_Nado:
  assumes "js_le x y"
  shows "calculateNadoPoints x a \<le> calculateNadoPoints y a"
    and "calculateNadoPoints a x \<le> calculateNadoPoints a y"
  using assms unfolding calculateNadoPoints_def Let_def
  by (auto dest: ge_mono)

lemma mono_Copink:
  assumes "js_le x y"
  shows "calculateCopinkPoints x a \<le> calculateCopinkPoints y a"
    and "calculateCopinkPoints a x \<le> calculateCopinkPoints a y"
  using assms unfolding calculateCopinkPoints_def Let_def
  by (auto dest: ge_mono)

lemma mono_Nft2me:
  assumes "js_le x y"
  shows "calculateNft2mePoints x a \<le> calculateNft2mePoints y a"
    and "calculateNft2mePoints a x \<le> calculateNft2mePoints a y"
  using assms unfolding calculateNft2mePoints_def Let_def
  by (auto dest: ge_mono)

lemma mono_NftTrading:
  assumes "js_le x y"
  shows "calculateNftTradingPoints x a b \<le> calculateNftTradingPoints y a b"
    and "calculateNftTradingPoints a x b \<le> calculateNftTradingPoints a y b"
    and "calculateNftTradingPoints a b x \<le> calculateNftTradingPoints a b y"
  using assms unfolding calculateNftTradingPoints_def Let_def
  by (auto dest: gt_mono add3_ge_mono1 add3_ge_mono2 add3_ge_mono3)

section \<open>Monotone brackets\<close>

text \<open>
  Claim C6. Every tier resolver is monotone in each of its numeric arguments: for inputs
  \<open>x\<close> and \<open>y\<close> that are not \<open>NaN\<close> with \<open>x \<le> y\<close>, the other arguments \<open>a\<close> and \<open>b\<close>
  held fixed (they may be anything, \<open>NaN\<close> and the infinities included), the points for
  \<open>y\<close> are at least the points for \<open>x\<close>. The two token-holding resolvers take a list of
  holdings and no numeric argument, so they do not appear.
\<close>

theorem tier_resolvers_monotone:
  assumes "x \<noteq> NaN" and "y \<noteq> NaN" and "js_le x y"
  shows "calculateNftCollectionsPoints x \<le> calculateNftCollectionsPoints y \<and>
         calculateWalletAgePoints x \<le> calculateWalletAgePoints y \<and>
         calculateTotalTxPoints x \<le> calculateTotalTxPoints y \<and>
         getBridgeVolumeTierPoints x \<le> getBridgeVolumeTierPoints y \<and>
         calculateBridgeInPoints x \<le> calculateBridgeInPoints y \<and>
         calculateBridgeOutPoints x \<le> calculateBridgeOutPoints y \<and>
         calculateGmPoints x \<le> calculateGmPoints y \<and>
         calculateInkyPumpPoints x a b \<le> calculateInkyPumpPoints y a b \<and>
         calculateInkyPumpPoints a x b \<le> calculateInkyPumpPoints a y b \<and>
         calculateInkyPumpPoints a b x \<le> calculateInkyPumpPoints a b y \<and>
         getTydroSupplyTierPoints x \<le> getTydroSupplyTierPoints y \<and>
         getTydroBorrowTierPoints x \<le> getTydroBorrowTierPoints y \<and>
         calculateTydroPoints x a \<le> calculateTydroPoints y a \<and>
         calculateTydroPoints a x \<le> calculateTydroPoints a y \<and>
         calculateSwapVolumePoints x \<le> calculateSwapVolumePoints y \<and>
         calculateShelliesPoints x a b \<le> calculateShelliesPoints y a b \<and>
         calculateShelliesPoints a x b \<le> calculateShelliesPoints a y b \<and>
         calculateShelliesPoints a b x \<le> calculateShelliesPoints a b y \<and>
         calculateZnsPoints x a b \<le> calculateZnsPoints y a b \<and>
         calculateZnsPoints a x b \<le> calculateZnsPoints a y b \<and>
         calculateZnsPoints a b x \<le> calculateZnsPoints a b y \<and>
         calculateMarvkPoints x a b \<le> calculateMarvkPoints y a b \<and>
         calculateMarvkPoints a x b \<le> calculateMarvkPoints a y b \<and>
         calculateMarvkPoints a b x \<le> calculateMarvkPoints a b y \<and>
         calculateNadoPoints x a \<le> calculateNadoPoints y a \<and>
         calculateNadoPoints a x \<le> calculateNadoPoints a y \<and>
         calculateCopinkPoints x a \<le> calculateCopinkPoints y a \<and>
         calculateCopinkPoints a x \<le> calculateCopinkPoints a y \<and>
         calculateNft2mePoints x a \<le> calculateNft2mePoints y a \<and>
         calculateNft2mePoints a x \<le> calculateNft2mePoints a y \<and>
         calculateNftTradingPoints x a b \<le> calculateNftTradingPoints y a b \<and>
         calculateNftTradingPoints a x b \<le> calculateNftTradingPoints a y b \<and>
         calculateNftTradingPoints a b x \<le> calculateNftTradingPoints a b y"
  using assms(3)
  by (simp add: mono_NftCollections mono_WalletAge mono_TotalTx mono_BridgeVolume
      calculateBridgeInPoints_def calculateBridgeOutPoints_def mono_Gm mono_InkyPump
      mono_TydroSupply mono_TydroBorrow mono_Tydro mono_Swap mono_Shellies mono_Zns mono_Marvk
      mono_Nado mono_Copink mono_Nft2me mono_NftTrading)

text \<open>The theorem at the inputs 4 and 1200.\<close>

theorem tier_resolvers_monotone_witness:
  "Fin 4 \<noteq> NaN \<and> Fin 1200 \<noteq> NaN \<and> js_le (Fin 4) (Fin 1200) \<and>
   calculateNftCollectionsPoints (Fin 4) \<le> calculateNftCollectionsPoints (Fin 1200) \<and>
   calculateWalletAgePoints (Fin 4) \<le> calculateWalletAgePoints (Fin 1200) \<and>
   calculateNadoPoints (Fin 4) NaN \<le> calculateNadoPoints (Fin 1200) NaN \<and>
   calculateNftTradingPoints PosInf (Fin 4) NegInf \<le> calculateNftTradingPoints PosInf (Fin 1200) NegInf"
  using tier_resolvers_monotone [of "Fin 4" "Fin 1200" NaN NegInf]
    tier_resolvers_monotone [of "Fin 4" "Fin 1200" PosInf NegInf]
  by simp


section \<open>Inputs below the lowest bracket\<close>

lemma out_of_range_ge: "out_of_range 1 x \<Longrightarrow> 1 \<le> c \<Longrightarrow> \<not> js_ge x (Fin c)"
  by (cases x) (auto simp: out_of_range_def js_ge_def isNaN_def)

lemma out_of_range_0_cases: "out_of_range 0 x \<Longrightarrow> x = NaN \<or> x = NegInf \<or> (\<exists>r. x = Fin r \<and> r \<le> 0)"
  by (cases x) (auto simp: out_of_range_def isNaN_def)

lemma nonpos_gt: "out_of_range 0 x \<Longrightarrow> \<not> js_gt x (Fin 0)"
  by (cases x) (auto simp: out_of_range_def js_gt_def isNaN_def)

lemma nonpos_add2: "out_of_range 0 x \<Longrightarrow> out_of_range 0 y \<Longrightarrow> 1 \<le> c \<Longrightarrow> \<not> js_ge (js_add x y) (Fin c)"
  by (auto dest!: out_of_range_0_cases simp: js_ge_def)

lemma nonpos_add3: "out_of_range 0 x \<Longrightarrow> out_of_range 0 y \<Longrightarrow> out_of_range 0 z \<Longrightarrow> 1 \<le> c \<Longrightarrow>
    \<not> js_ge (js_add (js_add x y) z) (Fin c)"
  by (auto dest!: out_of_range_0_cases simp: js_ge_def)

lemma low_NftCollections: "out_of_range 1 x \<Longrightarrow> calculateNftCollectionsPoints x = 0"
  by (simp add: calculateNftCollectionsPoints_def out_of_range_ge)

lemma low_WalletAge: "\<not> isNaN n \<Longrightarrow> out_of_range 0 n \<Longrightarrow> calculateWalletAgePoints n = 0"
  by (cases n) (auto simp: calculateWalletAgePoints_def out_of_range_def isNaN_def)

lemma low_TotalTx: "\<not> isNaN n \<Longrightarrow> out_of_range 0 n \<Longrightarrow> calculateTotalTxPoints n = 0"
  by (cases n) (auto simp: calculateTotalTxPoints_def out_of_range_def isNaN_def)

lemma low_Bridge: "out_of_range 1 x \<Longrightarrow> getBridgeVolumeTierPoints x = 0"
  by (simp add: getBridgeVolumeTierPoints_def out_of_range_ge)

lemma low_Gm: "out_of_range 1 x \<Longrightarrow> calculateGmPoints x = 0"
  by (simp add: calculateGmPoints_def out_of_range_ge)

lemma low_InkyPump: "out_of_range 1 x \<Longrightarrow> out_of_range 0 u \<Longrightarrow> out_of_range 0 v \<Longrightarrow> calculateInkyPumpPoints x u v = 0"
  by (simp add: calculateInkyPumpPoints_def out_of_range_ge nonpos_add2)

lemma low_TydroSupply: "out_of_range 1 x \<Longrightarrow> getTydroSupplyTierPoints x = 0"
  by (simp add: getTydroSupplyTierPoints_def out_of_range_ge)

lemma low_TydroBorrow: "out_of_range 1 x \<Longrightarrow> getTydroBorrowTierPoints x = 0"
  by (simp add: getTydroBorrowTierPoints_def out_of_range_ge)

lemma low_Swap: "out_of_range 1 x \<Longrightarrow> calculateSwapVolumePoints x = 0"
  by (simp add: calculateSwapVolumePoints_def out_of_range_ge)

lemma low_Shellies: "out_of_range 1 x \<Longrightarrow> out_of_range 1 y \<Longrightarrow> out_of_range 1 z \<Longrightarrow> calculateShelliesPoints x y z = 0"
  by (simp add: calculateShelliesPoints_def out_of_range_ge)

lemma low_Zns: "out_of_range 1 x \<Longrightarrow> out_of_range 1 y \<Longrightarrow> out_of_range 1 z \<Longrightarrow> calculateZnsPoints x y z = 0"
  by (simp add: calculateZnsPoints_def out_of_range_ge)

lemma low_Marvk: "out_of_range 1 x \<Longrightarrow> out_of_range 1 y \<Longrightarrow> out_of_range 1 z \<Longrightarrow> calculateMarvkPoints x y z = 0"
  by (simp add: calculateMarvkPoints_def out_of_range_ge)

lemma negative_not_ge: "isNaN m \<or> js_lt m (Fin 0) \<Longrightarrow> 0 \<le> c \<Longrightarrow> \<not> js_ge m (Fin c)"
  by (cases m) (auto simp: isNaN_def js_ge_def)

lemma zero_ge: "js_ge (Fin 0) (Fin c) = (c \<le> 0)"
  by (simp add: js_ge_def)

lemma low_Nado: "out_of_range 1 x \<Longrightarrow> isNaN m \<or> js_lt m (Fin 0) \<Longrightarrow> calculateNadoPoints x m = 0"
  by (simp add: calculateNadoPoints_def out_of_range_ge negative_not_ge)

lemma zero_Nado: "out_of_range 1 x \<Longrightarrow> calculateNadoPoints x (Fin 0) = 50"
  by (simp add: calculateNadoPoints_def out_of_range_ge zero_ge)

lemma low_Copink: "out_of_range 1 x \<Longrightarrow> out_of_range 1 y \<Longrightarrow> calculateCopinkPoints x y = 0"
  by (simp add: calculateCopinkPoints_def out_of_range_ge)

lemma low_Nft2me: "out_of_range 1 x \<Longrightarrow> out_of_range 1 y \<Longrightarrow> calculateNft2mePoints x y = 0"
  by (simp add: calculateNft2mePoints_def out_of_range_ge)

lemma low_NftTrading: "out_of_range 0 u \<Longrightarrow> out_of_range 0 v \<Longrightarrow> out_of_range 0 s \<Longrightarrow> calculateNftTradingPoints u v s = 0"
  by (simp add: calculateNftTradingPoints_def nonpos_gt nonpos_add3)

text \<open>
  Claim C2, as the code has it. The resolvers are total functions into the integers, so
  none of them throws. A resolver returns 0 when each of its inputs is \<open>NaN\<close>, negative,
  zero, or below the lowest threshold of its table, with these provisos:
  \<^item> the volume table of \<^verbatim>\<open>calculateNadoPoints\<close> starts at the threshold 0 (its bracket
    \<^verbatim>\<open>totalVolume >= 0\<close>, "Tier 0: Testing"), so a volume that is \<open>NaN\<close> or negative scores
    0 and a volume of zero scores 50;
  \<^item> for \<^verbatim>\<open>calculateWalletAgePoints\<close> and \<^verbatim>\<open>calculateTotalTxPoints\<close>, which test with
    \<^verbatim>\<open><=\<close>, the statement is about inputs that are negative or zero and not \<open>NaN\<close>;
  \<^item> where a resolver adds its inputs before it compares (the buy and sell volume of
    \<^verbatim>\<open>calculateInkyPumpPoints\<close>, the three counts of \<^verbatim>\<open>calculateNftTradingPoints\<close>), the
    inputs are \<open>NaN\<close>, negative or zero.
\<close>

theorem tier_resolvers_low_inputs:
  assumes "out_of_range 1 x" and "out_of_range 1 y" and "out_of_range 1 z"
    and "\<not> isNaN n" and "out_of_range 0 n"
    and "out_of_range 0 u" and "out_of_range 0 v" and "out_of_range 0 s"
    and "isNaN m \<or> js_lt m (Fin 0)"
  shows "calculateNftCollectionsPoints x = 0 \<and>
         calculateWalletAgePoints n = 0 \<and>
         calculateTotalTxPoints n = 0 \<and>
         getBridgeVolumeTierPoints x = 0 \<and>
         calculateBridgeInPoints x = 0 \<and>
         calculateBridgeOutPoints x = 0 \<and>
         calculateGmPoints x = 0 \<and>
         calculateInkyPumpPoints x u v = 0 \<and>
         getTydroSupplyTierPoints x = 0 \<and>
         getTydroBorrowTierPoints x = 0 \<and>
         calculateTydroPoints x y = 0 \<and>
         calculateSwapVolumePoints x = 0 \<and>
         calculateShelliesPoints x y z = 0 \<and>
         calculateZnsPoints x y z = 0 \<and>
         calculateMarvkPoints x y z = 0 \<and>
         calculateNadoPoints x m = 0 \<and>
         calculateNadoPoints x (Fin 0) = 50 \<and>
         calculateCopinkPoints x y = 0 \<and>
         calculateNft2mePoints x y = 0 \<and>
         calculateNftTradingPoints u v s = 0"
  using assms
  by (simp add: low_NftCollections low_WalletAge low_TotalTx low_Bridge
      calculateBridgeInPoints_def calculateBridgeOutPoints_def low_Gm low_InkyPump
      low_TydroSupply low_TydroBorrow calculateTydroPoints_def low_Swap low_Shellies low_Zns
      low_Marvk low_Nado zero_Nado low_Copink low_Nft2me low_NftTrading)

text \<open>The theorem at one half, \<open>NaN\<close>, zero and three negative inputs.\<close>

theorem tier_resolvers_low_inputs_witness:
  "out_of_range 1 (Fin (1/2)) \<and> out_of_range 1 NaN \<and> out_of_range 1 (Fin (-3)) \<and>
   \<not> isNaN (Fin 0) \<and> out_of_range 0 (Fin 0) \<and>
   out_of_range 0 NaN \<and> out_of_range 0 (Fin 0) \<and> out_of_range 0 (Fin (-2)) \<and>
   (isNaN (Fin (-1)) \<or> js_lt (Fin (-1)) (Fin 0)) \<and>
   calculateNftCollectionsPoints (Fin (1/2)) = 0 \<and>
   calculateWalletAgePoints (Fin 0) = 0 \<and>
   calculateShelliesPoints (Fin (1/2)) NaN (Fin (-3)) = 0 \<and>
   calculateNadoPoints (Fin (1/2)) (Fin (-1)) = 0 \<and>
   calculateNadoPoints (Fin (1/2)) (Fin 0) = 50 \<and>
   calculateNftTradingPoints NaN (Fin 0) (Fin (-2)) = 0"
  using tier_resolvers_low_inputs
    [of "Fin (1/2)" NaN "Fin (-3)" "Fin 0" NaN "Fin 0" "Fin (-2)" "Fin (-1)"]
  by (simp add: out_of_range_def isNaN_def)

text \<open>
  Claim C2 as stated fails at zero: with no deposits and a volume of zero,
  \<^verbatim>\<open>calculateNadoPoints\<close> awards the 50 points of its lowest volume bracket.
\<close>

theorem zero_volume_scores_on_nado:
  "calculateNadoPoints (Fin 0) (Fin 0) = 50 \<and> calculateNadoPoints (Fin 0) (Fin 0) \<noteq> 0"
  by (simp add: calculateNadoPoints_def js_ge_def)

text \<open>
  A \<open>NaN\<close> that reached the two \<^verbatim>\<open><=\<close> resolvers would fail every test and fall through
  to the last bracket. Their only caller passes \<^verbatim>\<open>walletStats.ageDays || 0\<close> and
  \<^verbatim>\<open>walletStats.totalTxns || 0\<close>, which are never \<open>NaN\<close>.
\<close>

lemma NaN_falls_through_the_age_brackets:
  "calculateWalletAgePoints NaN = 600 \<and> calculateTotalTxPoints NaN = 600"
  by (simp add: calculateWalletAgePoints_def calculateTotalTxPoints_def)

section \<open>The worked example of the specification\<close>

text \<open>
  Claim C9 as stated fails: seven NFT collections give 250 points, a wallet age of 400
  days gives 500 and a bridge-in volume of 1500 USD gives 250, which is 1000 and not 950.
\<close>

theorem example_tiers_sum_counterexample:
  "calculateNftCollectionsPoints (Fin 7) + calculateWalletAgePoints (Fin 400)
     + calculateBridgeInPoints (Fin 1500) \<noteq> 950"
  by (simp add: calculateNftCollectionsPoints_def calculateWalletAgePoints_def
      calculateBridgeInPoints_def getBridgeVolumeTierPoints_def js_ge_def)


section \<open>Rank resolution\<close>

lemma rank_test: 
  "(js_ge p (min_points r) \<and> (case max_points r of None \<Rightarrow> True | Some mx \<Rightarrow> js_le p mx))
     = in_rank_interval p r"
  by (simp add: in_rank_interval_def js_ge_def)

lemma getRankForPoints_find: "getRankForPoints rs p = find (in_rank_interval p) rs"
  by (induction rs) (simp_all add: rank_test)

lemma getRankForPoints_None:
  "getRankForPoints rs p = None \<longleftrightarrow> (\<forall>r\<in>set rs. \<not> in_rank_interval p r)"
  by (auto simp: getRankForPoints_find find_None_iff)

lemma getRankForPoints_Some:
  "getRankForPoints rs p = Some r \<longleftrightarrow>
     (\<exists>i<length rs. rs ! i = r \<and> in_rank_interval p r \<and>
        (\<forall>j<i. \<not> in_rank_interval p (rs ! j)))"
  by (auto simp: getRankForPoints_find find_Some_iff)

text \<open>
  Claim C4. For every points value \<open>p\<close> and every rank list, \<^verbatim>\<open>getRankForPoints\<close> returns
  the first rank of the list whose interval from \<open>min_points\<close> to \<open>max_points\<close> contains
  \<open>p\<close> (an absent \<open>max_points\<close> is unbounded above): the rank at an index \<open>i\<close> whose
  interval contains \<open>p\<close> while no earlier one does. It returns \<open>None\<close>, the \<^verbatim>\<open>null\<close> of
  the source and not an error, exactly when no interval of the list contains \<open>p\<close>. The
  list need not be sorted for this; the lists the store delivers are sorted by
  \<open>min_points\<close>.
\<close>

theorem rank_resolution_first_match:
  "(getRankForPoints rs p = None \<longleftrightarrow> (\<forall>r\<in>set rs. \<not> in_rank_interval p r)) \<and>
   (\<forall>r. getRankForPoints rs p = Some r \<longleftrightarrow>
      (\<exists>i<length rs. rs ! i = r \<and> in_rank_interval p r \<and>
         (\<forall>j<i. \<not> in_rank_interval p (rs ! j))))"
  using getRankForPoints_None getRankForPoints_Some by blast

text \<open>The theorem on a sorted list of three ranks.\<close>

lemma example_ranks_sorted:
  "sorted_wrt (\<lambda>r s. js_le (min_points r) (min_points s)) example_ranks"
  by (simp add: example_ranks_def example_rank_def)

theorem rank_resolution_first_match_witness:
  "sorted_wrt (\<lambda>r s. js_le (min_points r) (min_points s)) example_ranks \<and>
   getRankForPoints example_ranks (Fin 1500) = Some (example_rank ''Silver'' 1000 (Some (Fin 4999))) \<and>
   getRankForPoints example_ranks (Fin 7000) = Some (example_rank ''Gold'' 5000 None) \<and>
   getRankForPoints example_ranks (Fin (-5)) = None \<and>
   getRankForPoints example_ranks NaN = None"
proof -
  have a: "getRankForPoints example_ranks (Fin 1500) = Some (example_rank ''Silver'' 1000 (Some (Fin 4999)))"
    using rank_resolution_first_match [of example_ranks "Fin 1500"]
    by (simp add: example_ranks_def example_rank_def in_rank_interval_def js_ge_def)
  have b: "getRankForPoints example_ranks (Fin 7000) = Some (example_rank ''Gold'' 5000 None)"
    using rank_resolution_first_match [of example_ranks "Fin 7000"]
    by (simp add: example_ranks_def example_rank_def in_rank_interval_def js_ge_def)
  have c: "getRankForPoints example_ranks (Fin (-5)) = None"
    using rank_resolution_first_match [of example_ranks "Fin (-5)"]
    by (simp add: example_ranks_def example_rank_def in_rank_interval_def)
  have d: "getRankForPoints example_ranks NaN = None"
    using rank_resolution_first_match [of example_ranks NaN]
    by (simp add: example_ranks_def example_rank_def in_rank_interval_def)
  show ?thesis using example_ranks_sorted a b c d by simp
qed

section \<open>Time to live of the two caches\<close>

text \<open>
  Claim C8. With a rank table cached at \<open>ranks_timestamp c\<close>, a read less than 60
  seconds (60000 ms) later returns the cached ranks and leaves the state as it is, the list
  of store queries included; a read 60 seconds later or more sends one query to the store,
  and a successful answer becomes the new cache entry, stamped with the clock at that
  moment. The meme-token cache does the same with 300 seconds.
\<close>

theorem cache_ttl:
  "(ranksCache w = Some c \<longrightarrow>
      (clock_at_check io - ranks_timestamp c < 60 * 1000 \<longrightarrow>
         getCachedRanks pint w io = (ranks c, w)) \<and>
      (60 * 1000 \<le> clock_at_check io - ranks_timestamp c \<longrightarrow>
         storeQueries (snd (getCachedRanks pint w io)) = storeQueries w @ [RanksQuery] \<and>
         (\<forall>rows. store_result io = Some rows \<longrightarrow>
            fst (getCachedRanks pint w io) = map (parseRank pint) rows \<and>
            ranksCache (snd (getCachedRanks pint w io)) =
              Some \<lparr>ranks = map (parseRank pint) rows, ranks_timestamp = clock_at_stamp io\<rparr>))) \<and>
   (memeTokensCache w = Some m \<longrightarrow>
      (clock_at_check mio - meme_timestamp m < 300 * 1000 \<longrightarrow>
         getMemeTokenAddresses w mio = (addresses m, w)) \<and>
      (300 * 1000 \<le> clock_at_check mio - meme_timestamp m \<longrightarrow>
         storeQueries (snd (getMemeTokenAddresses w mio)) = storeQueries w @ [MemeCoinsQuery] \<and>
         (\<forall>coins. store_result mio = Some coins \<longrightarrow>
            fst (getMemeTokenAddresses w mio) =
              set (map (\<lambda>coin. toLowerCase (coin_address coin)) coins) \<and>
            memeTokensCache (snd (getMemeTokenAddresses w mio)) =
              Some \<lparr>addresses = set (map (\<lambda>coin. toLowerCase (coin_address coin)) coins),
                    meme_timestamp = clock_at_stamp mio\<rparr>)))"
  by (auto simp: getCachedRanks_def refreshRanks_def RANKS_CACHE_TTL_def
      getMemeTokenAddresses_def refreshMemeTokenAddresses_def MEME_TOKENS_CACHE_TTL_def Let_def
      split: option.splits)


text \<open>The theorem at 59, 60 and 61 seconds for the ranks, at 299 and 301 seconds for the meme tokens.\<close>

theorem cache_ttl_witness:
  "getCachedRanks example_parse warm_world (store_call_at 59000 None) = (example_ranks, warm_world) \<and>
   storeQueries (snd (getCachedRanks example_parse warm_world (store_call_at 60000 (Some []))))
     = [RanksQuery] \<and>
   ranksCache (snd (getCachedRanks example_parse warm_world (store_call_at 61000 (Some []))))
     = Some \<lparr>ranks = [], ranks_timestamp = 61005\<rparr> \<and>
   fst (getMemeTokenAddresses warm_world (store_call_at 299000 None))
     = {''0x20c69c12abf2b6f8d8ca33604dd25c700c7e70a5''} \<and>
   storeQueries (snd (getMemeTokenAddresses warm_world (store_call_at 299000 None))) = [] \<and>
   storeQueries (snd (getMemeTokenAddresses warm_world (store_call_at 301000 (Some []))))
     = [MemeCoinsQuery]"
  using cache_ttl [of warm_world "\<lparr>ranks = example_ranks, ranks_timestamp = 0\<rparr>"
        "store_call_at 59000 None" example_parse
        "\<lparr>addresses = set [''0x20c69c12abf2b6f8d8ca33604dd25c700c7e70a5''], meme_timestamp = 0\<rparr>"
        "store_call_at 299000 None"]
    cache_ttl [of warm_world "\<lparr>ranks = example_ranks, ranks_timestamp = 0\<rparr>"
        "store_call_at 60000 (Some [])" example_parse
        "\<lparr>addresses = set [''0x20c69c12abf2b6f8d8ca33604dd25c700c7e70a5''], meme_timestamp = 0\<rparr>"
        "store_call_at 301000 (Some [])"]
    cache_ttl [of warm_world "\<lparr>ranks = example_ranks, ranks_timestamp = 0\<rparr>"
        "store_call_at 61000 (Some [])" example_parse
        "\<lparr>addresses = set [''0x20c69c12abf2b6f8d8ca33604dd25c700c7e70a5''], meme_timestamp = 0\<rparr>"
        "store_call_at 301000 (Some [])"]
  by (simp add: warm_world_def store_call_at_def)

section \<open>Meme-token classification\<close>

lemma same_ignoring_case_toLowerCase:
  "same_ignoring_case a b \<longleftrightarrow> toLowerCase a = toLowerCase b"
proof -
  have "toLowerCase a = toLowerCase b \<longleftrightarrow>
        list_all2 (=) (map toLowerCaseChar a) (map toLowerCaseChar b)"
    by (simp add: toLowerCase_def list.rel_eq)
  then show ?thesis
    by (simp add: same_ignoring_case_def list.rel_map)
qed

text \<open>
  Claim C7. When the meme-token set is refreshed from a list of coins, a query with an
  address that differs only in letter case from the address of one of the coins is
  classified as a meme token, in the refreshing call and in every later call that finds
  the cache entry still valid.
\<close>

theorem meme_classification_ignores_case:
  assumes "meme_stale w (clock_at_check io)"
    and "store_result io = Some coins"
    and "coin \<in> set coins"
    and "same_ignoring_case (coin_address coin) q"
  shows "fst (isMemeToken w io q) \<and>
         (\<forall>io2. \<not> meme_stale (snd (isMemeToken w io q)) (clock_at_check io2) \<longrightarrow>
            fst (isMemeToken (snd (isMemeToken w io q)) io2 q) \<and>
            snd (isMemeToken (snd (isMemeToken w io q)) io2 q) = snd (isMemeToken w io q))"
proof -
  let ?addrs = "set (map (\<lambda>coin. toLowerCase (coin_address coin)) coins)"
  let ?w1 = "w\<lparr>storeQueries := storeQueries w @ [MemeCoinsQuery],
               memeTokensCache := Some \<lparr>addresses = ?addrs, meme_timestamp = clock_at_stamp io\<rparr>\<rparr>"
  have refresh: "getMemeTokenAddresses w io = (?addrs, ?w1)"
    using assms(1,2)
    by (auto simp: getMemeTokenAddresses_def refreshMemeTokenAddresses_def meme_stale_def
        Let_def split: option.splits)
  have "toLowerCase q = toLowerCase (coin_address coin)"
    using assms(4) by (simp add: same_ignoring_case_toLowerCase)
  then have mem: "toLowerCase q \<in> ?addrs"
    using assms(3) by auto
  have first: "isMemeToken w io q = (True, ?w1)"
    using mem by (simp add: isMemeToken_def refresh)
  have later: "isMemeToken ?w1 io2 q = (True, ?w1)" if "\<not> meme_stale ?w1 (clock_at_check io2)" for io2
    using that mem by (simp add: isMemeToken_def getMemeTokenAddresses_def meme_stale_def)
  show ?thesis
    using first later by simp
qed

text \<open>The theorem for a coin stored in mixed case and queried in another mixed case.\<close>

theorem meme_classification_ignores_case_witness:
  "meme_stale example_world 1000 \<and>
   same_ignoring_case ''0xAbCdEf12'' ''0XaBcDEF12'' \<and>
   fst (isMemeToken example_world
         (store_call_at 1000 (Some [\<lparr>coin_address = ''0x11''\<rparr>, \<lparr>coin_address = ''0xAbCdEf12''\<rparr>]))
         ''0XaBcDEF12'')"
proof -
  let ?coins = "[\<lparr>coin_address = ''0x11''\<rparr>, \<lparr>coin_address = ''0xAbCdEf12''\<rparr>]"
  let ?io = "store_call_at 1000 (Some ?coins)"
  have stale: "meme_stale example_world 1000"
    by (simp add: meme_stale_def example_world_def)
  then have h1: "meme_stale example_world (clock_at_check ?io)"
    by (simp add: store_call_at_def)
  have h2: "store_result ?io = Some ?coins"
    by (simp add: store_call_at_def)
  have h3: "\<lparr>coin_address = ''0xAbCdEf12''\<rparr> \<in> set ?coins"
    by simp
  have same: "same_ignoring_case ''0xAbCdEf12'' ''0XaBcDEF12''"
    by code_simp
  then have h4: "same_ignoring_case (coin_address \<lparr>coin_address = ''0xAbCdEf12''\<rparr>) ''0XaBcDEF12''"
    by simp
  from meme_classification_ignores_case [OF h1 h2 h3 h4] stale same show ?thesis
    by blast
qed

section \<open>Shape of the aggregator's result\<close>

lemma platform_key_list: "map fst (fst (scorePlatforms env)) = platform_keys"
  by (simp add: scorePlatforms_def Let_def assign_def platform_keys_def)

lemma platforms_total: "snd (scorePlatforms env) = sum_points (fst (scorePlatforms env))"
  by (simp add: scorePlatforms_def Let_def assign_def sum_points_def)

lemma getMemeTokenAddresses_ranksCache:
  "ranksCache (snd (getMemeTokenAddresses w io)) = ranksCache w"
  by (simp add: getMemeTokenAddresses_def refreshMemeTokenAddresses_def Let_def
      split: option.splits)

lemma native_key_list: "map fst (fst (scoreNative w env ws)) = native_keys"
  by (simp add: scoreNative_def Let_def assign_def native_keys_def split_beta)

lemma native_total:
  "fst (snd (scoreNative w env ws)) = sum_points (fst (scoreNative w env ws))"
  by (simp add: scoreNative_def Let_def assign_def sum_points_def split_beta)

lemma native_ranksCache:
  "ranksCache (snd (snd (scoreNative w env ws))) = ranksCache w"
  by (simp add: scoreNative_def Let_def split_beta getMemeTokenAddresses_ranksCache
      calculateTokenHoldingsPoints_def calculateMemeCoinsPoints_def)

lemma calculateWalletScore_success:
  assumes "\<not> any_rejected env" and "\<not> any_json_throws env"
    and "data_of (walletStatsRes env) = Some ws"
  shows "calculateWalletScore w env a =
     (Inr \<lparr>wallet_address = toLowerCase a,
           total_points = fst (snd (scoreNative w env ws)) + snd (scorePlatforms env),
           rank = (case getRankForPoints
                          (fst (getCachedRanks (parseInt10 env) (snd (snd (scoreNative w env ws)))
                                 (ranksCall env)))
                          (Fin (real_of_int (fst (snd (scoreNative w env ws))
                                  + snd (scorePlatforms env)))) of
                     None \<Rightarrow> None
                   | Some r \<Rightarrow> Some \<lparr>name = name r, color = color r, logo_url = logo_url r\<rparr>),
           breakdown = \<lparr>native = fst (scoreNative w env ws),
                        platforms = fst (scorePlatforms env)\<rparr>,
           last_updated = clock_at_return env\<rparr>,
      snd (getCachedRanks (parseInt10 env) (snd (snd (scoreNative w env ws))) (ranksCall env)))"
  using assms by (simp add: calculateWalletScore_def Let_def split_beta)


lemma calculateWalletScore_Inr:
  assumes "fst (calculateWalletScore w env a) = Inr resp"
  obtains ws where "\<not> any_rejected env" and "\<not> any_json_throws env"
    and "data_of (walletStatsRes env) = Some ws"
  using assms
  by (auto simp: calculateWalletScore_def Let_def split: if_splits option.splits)

lemma degraded_env_ok:
  "\<not> any_rejected degraded_env" "\<not> any_json_throws degraded_env"
  "data_of (walletStatsRes degraded_env) = Some example_stats"
  by (simp_all add: degraded_env_def any_rejected_def any_json_throws_def rejected_def
      json_throws_def data_of_def)

section \<open>Total and keys of the breakdown\<close>

text \<open>
  Claim C10. Every response that \<^verbatim>\<open>calculateWalletScore\<close> returns has a total equal to
  the sum of the points of all entries under \<open>native\<close> and \<open>platforms\<close>, and its
  breakdown has exactly the five native keys and the thirteen platform keys, each once,
  whatever the other sources answered.
\<close>

theorem total_is_sum_of_breakdown:
  assumes "fst (calculateWalletScore w env a) = Inr resp"
  shows "total_points resp =
           sum_points (native (breakdown resp)) + sum_points (platforms (breakdown resp)) \<and>
         map fst (native (breakdown resp)) =
           [''nft_collections'', ''erc20_tokens'', ''meme_coins'', ''wallet_age'', ''total_tx''] \<and>
         map fst (platforms (breakdown resp)) =
           [''bridge_in'', ''bridge_out'', ''gm'', ''inkypump'', ''tydro'', ''swap'', ''shellies'',
            ''zns'', ''nft2me'', ''nft_trading'', ''marvk'', ''nado'', ''copink'']"
proof -
  from assms obtain ws where ok: "\<not> any_rejected env" "\<not> any_json_throws env"
    "data_of (walletStatsRes env) = Some ws"
    by (rule calculateWalletScore_Inr)
  from assms have resp: "resp = projr (fst (calculateWalletScore w env a))"
    by simp
  show ?thesis
    unfolding resp calculateWalletScore_success [OF ok]
    using native_key_list [of w env ws] platform_key_list [of env]
    by (simp add: native_total platforms_total native_keys_def platform_keys_def)
qed

text \<open>The theorem for a wallet whose sixteen other sources all answer HTTP 500.\<close>

theorem total_is_sum_of_breakdown_witness:
  "\<exists>resp. fst (calculateWalletScore example_world degraded_env ''0xAbC'') = Inr resp \<and>
      total_points resp =
        sum_points (native (breakdown resp)) + sum_points (platforms (breakdown resp)) \<and>
      map fst (native (breakdown resp)) =
        [''nft_collections'', ''erc20_tokens'', ''meme_coins'', ''wallet_age'', ''total_tx''] \<and>
      map fst (platforms (breakdown resp)) =
        [''bridge_in'', ''bridge_out'', ''gm'', ''inkypump'', ''tydro'', ''swap'', ''shellies'',
         ''zns'', ''nft2me'', ''nft_trading'', ''marvk'', ''nado'', ''copink'']"
proof -
  let ?res = "fst (calculateWalletScore example_world degraded_env ''0xAbC'')"
  have r: "?res = Inr (projr ?res)"
    by (simp add: calculateWalletScore_success [OF degraded_env_ok])
  from total_is_sum_of_breakdown [OF r] r show ?thesis
    by (intro exI [of _ "projr ?res"] conjI) simp_all
qed

section \<open>Failure of the primary source\<close>

text \<open>
  Claim C3. When the wallet-stats fetch is rejected, answers with a status outside 2xx,
  or has a body that does not parse or is \<^verbatim>\<open>null\<close>, the call ends in an error: there is
  no response, partial or otherwise, and the state is as before the call.
\<close>

theorem primary_failure_is_fatal:
  assumes "primary_unusable (walletStatsRes env)"
  shows "\<exists>e. calculateWalletScore w env a = (Inl e, w)"
proof (cases "walletStatsRes env")
  case Rejects
  then have "any_rejected env"
    by (simp add: any_rejected_def rejected_def)
  then show ?thesis
    by (simp add: calculateWalletScore_def)
next
  case (Resolves ok j)
  with assms have "data_of (walletStatsRes env) = None"
    by (auto simp: primary_unusable_def data_of_def split: if_splits json_outcome.splits)
  then show ?thesis
    by (simp add: calculateWalletScore_def)
qed

text \<open>The theorem for HTTP 500, for a \<^verbatim>\<open>null\<close> body and for a rejected fetch.\<close>

theorem primary_failure_is_fatal_witness:
  "primary_unusable (Resolves False JsonThrows :: WalletStatsResponse fetch_outcome) \<and>
   (\<exists>e. calculateWalletScore example_world
          (degraded_env\<lparr>walletStatsRes := Resolves False JsonThrows\<rparr>) ''0xAbC''
        = (Inl e, example_world)) \<and>
   primary_unusable (Resolves True (JsonValue None) :: WalletStatsResponse fetch_outcome) \<and>
   (\<exists>e. calculateWalletScore example_world
          (degraded_env\<lparr>walletStatsRes := Resolves True (JsonValue None)\<rparr>) ''0xAbC''
        = (Inl e, example_world)) \<and>
   primary_unusable (Rejects :: WalletStatsResponse fetch_outcome) \<and>
   (\<exists>e. calculateWalletScore example_world
          (degraded_env\<lparr>walletStatsRes := Rejects\<rparr>) ''0xAbC''
        = (Inl e, example_world))"
  using primary_failure_is_fatal
      [of "degraded_env\<lparr>walletStatsRes := Resolves False JsonThrows\<rparr>" example_world "''0xAbC''"]
    primary_failure_is_fatal
      [of "degraded_env\<lparr>walletStatsRes := Resolves True (JsonValue None)\<rparr>" example_world "''0xAbC''"]
    primary_failure_is_fatal
      [of "degraded_env\<lparr>walletStatsRes := Rejects\<rparr>" example_world "''0xAbC''"]
  by (simp add: primary_unusable_def)

section \<open>Degraded sources\<close>

lemma not_ok_data_of: "not_ok f \<Longrightarrow> data_of f = None"
  by (cases f) (simp_all add: not_ok_def data_of_def)

lemmas low_eval = fld_def opt_or_zero_def opt_or_empty_def opt_or_str0_def zero_entry_def
  js_ge_def js_gt_def

lemma lookup_bridge:
  assumes "data_of (bridgeRes env) = None"
  shows "map_of (fst (scorePlatforms env)) ''bridge_in'' = Some zero_entry"
    and "map_of (fst (scorePlatforms env)) ''bridge_out'' = Some zero_entry"
  using assms
  by (simp_all add: scorePlatforms_def Let_def assign_def update_conv' low_eval
      calculateBridgeInPoints_def calculateBridgeOutPoints_def getBridgeVolumeTierPoints_def)

lemma lookup_swap:
  assumes "data_of (swapRes env) = None"
  shows "map_of (fst (scorePlatforms env)) ''swap'' = Some zero_entry"
  using assms
  by (simp add: scorePlatforms_def Let_def assign_def update_conv' low_eval
      calculateSwapVolumePoints_def)

lemma lookup_tydro:
  assumes "data_of (tydroRes env) = None"
  shows "map_of (fst (scorePlatforms env)) ''tydro'' = Some zero_entry"
  using assms
  by (simp add: scorePlatforms_def Let_def assign_def update_conv' low_eval
      calculateTydroPoints_def getTydroSupplyTierPoints_def getTydroBorrowTierPoints_def)

lemma lookup_gm:
  assumes "data_of (gmRes env) = None"
  shows "map_of (fst (scorePlatforms env)) ''gm'' = Some zero_entry"
  using assms
  by (simp add: scorePlatforms_def Let_def assign_def update_conv' low_eval
      calculateGmPoints_def)

lemma lookup_inkypump:
  assumes "data_of (inkyPumpCreatedRes env) = None"
    and "data_of (inkyPumpBuyRes env) = None"
    and "data_of (inkyPumpSellRes env) = None"
    and "parseFloat env ''0'' = Fin 0"
  shows "map_of (fst (scorePlatforms env)) ''inkypump'' = Some zero_entry"
  using assms
  by (simp add: scorePlatforms_def Let_def assign_def update_conv' low_eval
      calculateInkyPumpPoints_def)

lemma lookup_shellies:
  assumes "data_of (shelliesRafflesRes env) = None"
    and "data_of (shelliesPayToPlayRes env) = None"
    and "data_of (shelliesStakingRes env) = None"
  shows "map_of (fst (scorePlatforms env)) ''shellies'' = Some zero_entry"
  using assms
  by (simp add: scorePlatforms_def Let_def assign_def update_conv' low_eval
      calculateShelliesPoints_def)

lemma lookup_zns:
  assumes "data_of (znsRes env) = None"
  shows "map_of (fst (scorePlatforms env)) ''zns'' = Some zero_entry"
  using assms
  by (simp add: scorePlatforms_def Let_def assign_def update_conv' low_eval
      calculateZnsPoints_def)

lemma lookup_nft2me:
  assumes "data_of (nft2meRes env) = None"
  shows "map_of (fst (scorePlatforms env)) ''nft2me'' = Some zero_entry"
  using assms
  by (simp add: scorePlatforms_def Let_def assign_def update_conv' low_eval
      calculateNft2mePoints_def)

lemma lookup_nft_trading:
  assumes "data_of (nftTradingRes env) = None"
  shows "map_of (fst (scorePlatforms env)) ''nft_trading'' = Some zero_entry"
  using assms
  by (simp add: scorePlatforms_def Let_def assign_def update_conv' low_eval
      calculateNftTradingPoints_def countFor_def)

lemma lookup_marvk:
  assumes "data_of (marvkRes env) = None"
  shows "map_of (fst (scorePlatforms env)) ''marvk'' = Some zero_entry"
  using assms
  by (simp add: scorePlatforms_def Let_def assign_def update_conv' low_eval
      calculateMarvkPoints_def)

lemma lookup_nado:
  assumes "data_of (nadoRes env) = None"
  shows "map_of (fst (scorePlatforms env)) ''nado''
           = Some \<lparr>points = 50, tx_count = Fin 0, usd_volume = Fin 0\<rparr>"
  using assms
  by (simp add: scorePlatforms_def Let_def assign_def update_conv' low_eval
      calculateNadoPoints_def)

lemma lookup_copink:
  assumes "data_of (copinkRes env) = None"
  shows "map_of (fst (scorePlatforms env)) ''copink'' = Some zero_entry"
  using assms
  by (simp add: scorePlatforms_def Let_def assign_def update_conv' low_eval
      calculateCopinkPoints_def)


lemma breakdown_of_success:
  assumes "\<not> any_rejected env" and "\<not> any_json_throws env"
    and "data_of (walletStatsRes env) = Some ws"
  shows "\<exists>resp w'. calculateWalletScore w env a = (Inr resp, w') \<and>
           native (breakdown resp) = fst (scoreNative w env ws) \<and>
           platforms (breakdown resp) = fst (scorePlatforms env) \<and>
           total_points resp = fst (snd (scoreNative w env ws)) + snd (scorePlatforms env)"
  by (simp add: calculateWalletScore_success [OF assms])

lemma degraded_env_not_ok:
  "not_ok (bridgeRes degraded_env)" "not_ok (swapRes degraded_env)"
  "not_ok (tydroRes degraded_env)" "not_ok (gmRes degraded_env)"
  "not_ok (inkyPumpCreatedRes degraded_env)" "not_ok (inkyPumpBuyRes degraded_env)"
  "not_ok (inkyPumpSellRes degraded_env)" "not_ok (shelliesRafflesRes degraded_env)"
  "not_ok (shelliesPayToPlayRes degraded_env)" "not_ok (shelliesStakingRes degraded_env)"
  "not_ok (znsRes degraded_env)" "not_ok (nft2meRes degraded_env)"
  "not_ok (nftTradingRes degraded_env)" "not_ok (marvkRes degraded_env)"
  "not_ok (nadoRes degraded_env)" "not_ok (copinkRes degraded_env)"
  "parseFloat degraded_env ''0'' = Fin 0"
  by (simp_all add: degraded_env_def not_ok_def example_parse_def)

text \<open>
  Claim C1, as the code has it. A rejected fetch of any source rejects \<^verbatim>\<open>Promise.all\<close>,
  and a body of an ok response that is not JSON makes \<^verbatim>\<open>json()\<close> throw; nothing between
  there and the \<^verbatim>\<open>catch\<close> block, which rethrows, handles either, so the call fails for
  the primary and for every other source alike. What the service tolerates is a status
  outside 2xx of a source other than wallet stats: when every fetch resolves, every ok
  body parses and the wallet-stats payload is there, the call returns a complete response,
  and a category all of whose sources answered with such a status is recorded with
  transaction count 0, volume 0 and 0 points. The one exception is \<^verbatim>\<open>nado\<close>, whose volume
  table starts at 0 and gives 50 points to a volume of zero. (The \<^verbatim>\<open>inkypump\<close> volume is
  \<^verbatim>\<open>parseFloat('0')\<close> twice, which is 0.)
\<close>

theorem degraded_sources:
  "(any_rejected env \<longrightarrow> calculateWalletScore w env a = (Inl FetchRejected, w)) \<and>
   (\<not> any_rejected env \<and> any_json_throws env \<longrightarrow>
      calculateWalletScore w env a = (Inl JsonSyntaxError, w)) \<and>
   (\<not> any_rejected env \<and> \<not> any_json_throws env \<and>
    data_of (walletStatsRes env) = Some ws \<longrightarrow>
      (\<exists>resp w'. calculateWalletScore w env a = (Inr resp, w') \<and>
         (not_ok (bridgeRes env) \<longrightarrow>
            map_of (platforms (breakdown resp)) ''bridge_in'' = Some zero_entry \<and>
            map_of (platforms (breakdown resp)) ''bridge_out'' = Some zero_entry) \<and>
         (not_ok (swapRes env) \<longrightarrow>
            map_of (platforms (breakdown resp)) ''swap'' = Some zero_entry) \<and>
         (not_ok (tydroRes env) \<longrightarrow>
            map_of (platforms (breakdown resp)) ''tydro'' = Some zero_entry) \<and>
         (not_ok (gmRes env) \<longrightarrow>
            map_of (platforms (breakdown resp)) ''gm'' = Some zero_entry) \<and>
         (not_ok (inkyPumpCreatedRes env) \<and> not_ok (inkyPumpBuyRes env) \<and>
          not_ok (inkyPumpSellRes env) \<and> parseFloat env ''0'' = Fin 0 \<longrightarrow>
            map_of (platforms (breakdown resp)) ''inkypump'' = Some zero_entry) \<and>
         (not_ok (shelliesRafflesRes env) \<and> not_ok (shelliesPayToPlayRes env) \<and>
          not_ok (shelliesStakingRes env) \<longrightarrow>
            map_of (platforms (breakdown resp)) ''shellies'' = Some zero_entry) \<and>
         (not_ok (znsRes env) \<longrightarrow>
            map_of (platforms (breakdown resp)) ''zns'' = Some zero_entry) \<and>
         (not_ok (nft2meRes env) \<longrightarrow>
            map_of (platforms (breakdown resp)) ''nft2me'' = Some zero_entry) \<and>
         (not_ok (nftTradingRes env) \<longrightarrow>
            map_of (platforms (breakdown resp)) ''nft_trading'' = Some zero_entry) \<and>
         (not_ok (marvkRes env) \<longrightarrow>
            map_of (platforms (breakdown resp)) ''marvk'' = Some zero_entry) \<and>
         (not_ok (copinkRes env) \<longrightarrow>
            map_of (platforms (breakdown resp)) ''copink'' = Some zero_entry) \<and>
         (not_ok (nadoRes env) \<longrightarrow>
            map_of (platforms (breakdown resp)) ''nado''
              = Some \<lparr>points = 50, tx_count = Fin 0, usd_volume = Fin 0\<rparr>)))"
proof (intro conjI impI)
  assume "any_rejected env"
  then show "calculateWalletScore w env a = (Inl FetchRejected, w)"
    by (simp add: calculateWalletScore_def)
next
  assume "\<not> any_rejected env \<and> any_json_throws env"
  then show "calculateWalletScore w env a = (Inl JsonSyntaxError, w)"
    by (simp add: calculateWalletScore_def)
next
  assume h: "\<not> any_rejected env \<and> \<not> any_json_throws env \<and>
    data_of (walletStatsRes env) = Some ws"
  then obtain resp w' where r: "calculateWalletScore w env a = (Inr resp, w')"
    and p: "platforms (breakdown resp) = fst (scorePlatforms env)"
    using breakdown_of_success [of env ws w a] by blast
  show "\<exists>resp w'. calculateWalletScore w env a = (Inr resp, w') \<and>
         (not_ok (bridgeRes env) \<longrightarrow>
            map_of (platforms (breakdown resp)) ''bridge_in'' = Some zero_entry \<and>
            map_of (platforms (breakdown resp)) ''bridge_out'' = Some zero_entry) \<and>
         (not_ok (swapRes env) \<longrightarrow>
            map_of (platforms (breakdown resp)) ''swap'' = Some zero_entry) \<and>
         (not_ok (tydroRes env) \<longrightarrow>
            map_of (platforms (breakdown resp)) ''tydro'' = Some zero_entry) \<and>
         (not_ok (gmRes env) \<longrightarrow>
            map_of (platforms (breakdown resp)) ''gm'' = Some zero_entry) \<and>
         (not_ok (inkyPumpCreatedRes env) \<and> not_ok (inkyPumpBuyRes env) \<and>
          not_ok (inkyPumpSellRes env) \<and> parseFloat env ''0'' = Fin 0 \<longrightarrow>
            map_of (platforms (breakdown resp)) ''inkypump'' = Some zero_entry) \<and>
         (not_ok (shelliesRafflesRes env) \<and> not_ok (shelliesPayToPlayRes env) \<and>
          not_ok (shelliesStakingRes env) \<longrightarrow>
            map_of (platforms (breakdown resp)) ''shellies'' = Some zero_entry) \<and>
         (not_ok (znsRes env) \<longrightarrow>
            map_of (platforms (breakdown resp)) ''zns'' = Some zero_entry) \<and>
         (not_ok (nft2meRes env) \<longrightarrow>
            map_of (platforms (breakdown resp)) ''nft2me'' = Some zero_entry) \<and>
         (not_ok (nftTradingRes env) \<longrightarrow>
            map_of (platforms (breakdown resp)) ''nft_trading'' = Some zero_entry) \<and>
         (not_ok (marvkRes env) \<longrightarrow>
            map_of (platforms (breakdown resp)) ''marvk'' = Some zero_entry) \<and>
         (not_ok (copinkRes env) \<longrightarrow>
            map_of (platforms (breakdown resp)) ''copink'' = Some zero_entry) \<and>
         (not_ok (nadoRes env) \<longrightarrow>
            map_of (platforms (breakdown resp)) ''nado''
              = Some \<lparr>points = 50, tx_count = Fin 0, usd_volume = Fin 0\<rparr>)"
    unfolding r
    by (intro exI [of _ resp] exI [of _ w'])
      (simp add: p not_ok_data_of lookup_bridge lookup_swap lookup_tydro lookup_gm
        lookup_inkypump lookup_shellies lookup_zns lookup_nft2me lookup_nft_trading
        lookup_marvk lookup_copink lookup_nado)
qed

text \<open>
  The theorem for a rejected bridge fetch, for a swap body that does not parse, and for
  sixteen sources that all answer HTTP 500.
\<close>

theorem degraded_sources_witness:
  "any_rejected (degraded_env\<lparr>bridgeRes := Rejects\<rparr>) \<and>
   calculateWalletScore example_world (degraded_env\<lparr>bridgeRes := Rejects\<rparr>) ''0xAbC''
     = (Inl FetchRejected, example_world) \<and>
   \<not> any_rejected (degraded_env\<lparr>swapRes := Resolves True JsonThrows\<rparr>) \<and>
   any_json_throws (degraded_env\<lparr>swapRes := Resolves True JsonThrows\<rparr>) \<and>
   calculateWalletScore example_world (degraded_env\<lparr>swapRes := Resolves True JsonThrows\<rparr>)
       ''0xAbC''
     = (Inl JsonSyntaxError, example_world) \<and>
   (\<exists>resp w'. calculateWalletScore example_world degraded_env ''0xAbC'' = (Inr resp, w') \<and>
      map_of (platforms (breakdown resp)) ''bridge_in'' = Some zero_entry \<and>
      map_of (platforms (breakdown resp)) ''bridge_out'' = Some zero_entry \<and>
      map_of (platforms (breakdown resp)) ''swap'' = Some zero_entry \<and>
      map_of (platforms (breakdown resp)) ''tydro'' = Some zero_entry \<and>
      map_of (platforms (breakdown resp)) ''gm'' = Some zero_entry \<and>
      map_of (platforms (breakdown resp)) ''inkypump'' = Some zero_entry \<and>
      map_of (platforms (breakdown resp)) ''shellies'' = Some zero_entry \<and>
      map_of (platforms (breakdown resp)) ''zns'' = Some zero_entry \<and>
      map_of (platforms (breakdown resp)) ''nft2me'' = Some zero_entry \<and>
      map_of (platforms (breakdown resp)) ''nft_trading'' = Some zero_entry \<and>
      map_of (platforms (breakdown resp)) ''marvk'' = Some zero_entry \<and>
      map_of (platforms (breakdown resp)) ''copink'' = Some zero_entry \<and>
      map_of (platforms (breakdown resp)) ''nado''
        = Some \<lparr>points = 50, tx_count = Fin 0, usd_volume = Fin 0\<rparr>)"
proof -
  have a: "any_rejected (degraded_env\<lparr>bridgeRes := Rejects\<rparr>)"
    by (simp add: any_rejected_def rejected_def)
  have b: "\<not> any_rejected (degraded_env\<lparr>swapRes := Resolves True JsonThrows\<rparr>)"
    "any_json_throws (degraded_env\<lparr>swapRes := Resolves True JsonThrows\<rparr>)"
    by (simp_all add: degraded_env_def any_rejected_def rejected_def any_json_throws_def
        json_throws_def)
  note t1 = degraded_sources [of "degraded_env\<lparr>bridgeRes := Rejects\<rparr>" example_world "''0xAbC''"]
  note t2 = degraded_sources [of "degraded_env\<lparr>swapRes := Resolves True JsonThrows\<rparr>"
      example_world "''0xAbC''"]
  note t3 = degraded_sources [of degraded_env example_world "''0xAbC''" example_stats]
  have c1: "calculateWalletScore example_world (degraded_env\<lparr>bridgeRes := Rejects\<rparr>) ''0xAbC''
     = (Inl FetchRejected, example_world)"
    using t1 a by blast
  have c2: "calculateWalletScore example_world
       (degraded_env\<lparr>swapRes := Resolves True JsonThrows\<rparr>) ''0xAbC''
     = (Inl JsonSyntaxError, example_world)"
    using t2 b by blast
  show ?thesis
    using a b c1 c2 t3 degraded_env_ok degraded_env_not_ok by simp
qed

text \<open>
  Claim C1 as stated fails for a transport failure: with wallet stats in order and the
  bridge fetch rejected, the call ends in an error.
\<close>

theorem transport_failure_counterexample:
  "fst (calculateWalletScore example_world (degraded_env\<lparr>bridgeRes := Rejects\<rparr>) ''0xAbC'')
     = Inl FetchRejected"
  by (simp add: calculateWalletScore_def any_rejected_def rejected_def)


section \<open>Registry failures\<close>

lemma fallback_card: "card (set FALLBACK_MEME_TOKENS) = 6"
proof -
  have "distinct FALLBACK_MEME_TOKENS"
    by (simp add: FALLBACK_MEME_TOKENS_def)
  then have "card (set FALLBACK_MEME_TOKENS) = length FALLBACK_MEME_TOKENS"
    by (rule distinct_card)
  then show ?thesis
    by (simp add: FALLBACK_MEME_TOKENS_def)
qed

lemma ranks_refresh_fails:
  assumes "ranks_stale w (clock_at_check io)" and "store_result io = None"
  shows "getCachedRanks pint w io = ([], w\<lparr>storeQueries := storeQueries w @ [RanksQuery]\<rparr>)"
  using assms
  by (auto simp: getCachedRanks_def refreshRanks_def ranks_stale_def Let_def
      split: option.splits)

lemma meme_refresh_fails:
  assumes "meme_stale w (clock_at_check io)" and "store_result io = None"
  shows "getMemeTokenAddresses w io
           = (set FALLBACK_MEME_TOKENS, w\<lparr>storeQueries := storeQueries w @ [MemeCoinsQuery]\<rparr>)"
  using assms
  by (auto simp: getMemeTokenAddresses_def refreshMemeTokenAddresses_def meme_stale_def Let_def
      split: option.splits)

lemma ranks_stale_after_native:
  "ranks_stale (snd (snd (scoreNative w env ws))) t = ranks_stale w t"
  by (simp add: ranks_stale_def native_ranksCache)

text \<open>
  Claim C5. When the store fails during a refresh, the two caches answer differently. The
  rank table becomes the empty list, so no rank is resolved and a response that is
  otherwise complete carries \<open>rank = None\<close>; no error reaches the caller. The meme-token
  set becomes the built-in list, which has six addresses and is not empty. In both cases
  the cache slot stays as it was and one store query is recorded.
\<close>

theorem registry_degradation:
  "(ranks_stale w (clock_at_check io) \<and> store_result io = None \<longrightarrow>
      getCachedRanks pint w io = ([], w\<lparr>storeQueries := storeQueries w @ [RanksQuery]\<rparr>)) \<and>
   getRankForPoints [] p = None \<and>
   (\<not> any_rejected env \<and> \<not> any_json_throws env \<and> data_of (walletStatsRes env) = Some ws \<and>
    ranks_stale w (clock_at_check (ranksCall env)) \<and> store_result (ranksCall env) = None \<longrightarrow>
      (\<exists>resp w'. calculateWalletScore w env a = (Inr resp, w') \<and> rank resp = None)) \<and>
   (meme_stale w (clock_at_check mio) \<and> store_result mio = None \<longrightarrow>
      getMemeTokenAddresses w mio
        = (set FALLBACK_MEME_TOKENS, w\<lparr>storeQueries := storeQueries w @ [MemeCoinsQuery]\<rparr>)) \<and>
   card (set FALLBACK_MEME_TOKENS) = 6 \<and>
   set FALLBACK_MEME_TOKENS \<noteq> {}"
proof (intro conjI impI)
  assume "ranks_stale w (clock_at_check io) \<and> store_result io = None"
  then show "getCachedRanks pint w io = ([], w\<lparr>storeQueries := storeQueries w @ [RanksQuery]\<rparr>)"
    by (simp add: ranks_refresh_fails)
next
  show "getRankForPoints [] p = None"
    by simp
next
  assume h: "\<not> any_rejected env \<and> \<not> any_json_throws env \<and>
    data_of (walletStatsRes env) = Some ws \<and>
    ranks_stale w (clock_at_check (ranksCall env)) \<and> store_result (ranksCall env) = None"
  then have ok: "\<not> any_rejected env" "\<not> any_json_throws env"
    "data_of (walletStatsRes env) = Some ws"
    by simp_all
  from h have "fst (getCachedRanks (parseInt10 env) (snd (snd (scoreNative w env ws)))
      (ranksCall env)) = []"
    by (simp add: ranks_refresh_fails ranks_stale_after_native)
  then show "\<exists>resp w'. calculateWalletScore w env a = (Inr resp, w') \<and> rank resp = None"
    by (simp add: calculateWalletScore_success [OF ok])
next
  assume "meme_stale w (clock_at_check mio) \<and> store_result mio = None"
  then show "getMemeTokenAddresses w mio
        = (set FALLBACK_MEME_TOKENS, w\<lparr>storeQueries := storeQueries w @ [MemeCoinsQuery]\<rparr>)"
    by (simp add: meme_refresh_fails)
next
  show "card (set FALLBACK_MEME_TOKENS) = 6"
    by (rule fallback_card)
next
  show "set FALLBACK_MEME_TOKENS \<noteq> {}"
    by (simp add: FALLBACK_MEME_TOKENS_def)
qed

text \<open>
  The theorem for caches filled at time 0 and read after their time to live with the
  store down, and for a wallet scored with the store down.
\<close>

theorem registry_degradation_witness:
  "ranks_stale warm_world 61000 \<and> meme_stale warm_world 301000 \<and>
   ranks_stale example_world 1000 \<and>
   fst (getCachedRanks example_parse warm_world (store_call_at 61000 None)) = [] \<and>
   fst (getMemeTokenAddresses warm_world (store_call_at 301000 None))
     = set FALLBACK_MEME_TOKENS \<and>
   (\<exists>resp w'. calculateWalletScore example_world degraded_env ''0xAbC'' = (Inr resp, w') \<and>
      rank resp = None)"
proof -
  have st: "ranks_stale warm_world 61000" "meme_stale warm_world 301000"
    "ranks_stale example_world 1000"
    by (simp_all add: ranks_stale_def meme_stale_def warm_world_def example_world_def
        RANKS_CACHE_TTL_def MEME_TOKENS_CACHE_TTL_def)
  have calls: "clock_at_check (store_call_at 61000 None :: RawRank list store_call) = 61000"
    "store_result (store_call_at 61000 None :: RawRank list store_call) = None"
    "clock_at_check (store_call_at 301000 None :: MemeCoin list store_call) = 301000"
    "store_result (store_call_at 301000 None :: MemeCoin list store_call) = None"
    "clock_at_check (ranksCall degraded_env) = 1000"
    "store_result (ranksCall degraded_env) = None"
    by (simp_all add: store_call_at_def degraded_env_def failing_store_def)
  note t1 = registry_degradation [where w = warm_world and io = "store_call_at 61000 None"
      and mio = "store_call_at 301000 None" and pint = example_parse]
  note t2 = registry_degradation [where w = example_world and env = degraded_env
      and ws = example_stats and a = "''0xAbC''"]
  have c1: "fst (getCachedRanks example_parse warm_world (store_call_at 61000 None)) = []"
    using t1 st calls by simp
  have c2: "fst (getMemeTokenAddresses warm_world (store_call_at 301000 None))
     = set FALLBACK_MEME_TOKENS"
    using t1 st calls by simp
  have c3: "\<exists>resp w'. calculateWalletScore example_world degraded_env ''0xAbC'' = (Inr resp, w') \<and>
      rank resp = None"
    using t2 st calls degraded_env_ok by simp
  show ?thesis
    using st c1 c2 c3 by simp
qed

section \<open>The worked example, inside a response\<close>

lemma lookup_nft_collections:
  "map_of (fst (scoreNative w env ws)) ''nft_collections''
     = Some \<lparr>points = calculateNftCollectionsPoints (supportedNftCountOf ws),
             metric_value = supportedNftCountOf ws\<rparr>"
  by (simp add: scoreNative_def Let_def assign_def update_conv' split_beta)

lemma lookup_wallet_age:
  "map_of (fst (scoreNative w env ws)) ''wallet_age''
     = Some \<lparr>points = calculateWalletAgePoints (opt_or_zero (ageDays ws)),
             metric_value = opt_or_zero (ageDays ws)\<rparr>"
  by (simp add: scoreNative_def Let_def assign_def update_conv' split_beta)

lemma lookup_bridge_in:
  "map_of (fst (scorePlatforms env)) ''bridge_in''
     = Some \<lparr>points = calculateBridgeInPoints
                        (opt_or_zero (fld bridgedInUsd (data_of (bridgeRes env)))),
             tx_count = opt_or_zero (fld bridgedInCount (data_of (bridgeRes env))),
             usd_volume = opt_or_zero (fld bridgedInUsd (data_of (bridgeRes env)))\<rparr>"
  by (simp add: scorePlatforms_def Let_def assign_def update_conv')

lemma native_total_split:
  "fst (snd (scoreNative w env ws))
     = calculateNftCollectionsPoints (supportedNftCountOf ws)
       + calculateWalletAgePoints (opt_or_zero (ageDays ws))
       + sum_points (filter (\<lambda>kv. fst kv \<notin> {''nft_collections'', ''wallet_age''})
                      (fst (scoreNative w env ws)))"
  by (simp add: scoreNative_def Let_def assign_def sum_points_def split_beta)

lemma platforms_total_split:
  "snd (scorePlatforms env)
     = calculateBridgeInPoints (opt_or_zero (fld bridgedInUsd (data_of (bridgeRes env))))
       + sum_points (filter (\<lambda>kv. fst kv \<noteq> ''bridge_in'') (fst (scorePlatforms env)))"
  by (simp add: scorePlatforms_def Let_def assign_def sum_points_def)

text \<open>
  Claim C9, as the code has it. In a response for a wallet with seven NFT collections, an
  age of 400 days and a bridge-in volume of 1500 USD, the entry \<^verbatim>\<open>nft_collections\<close> holds
  the value 7 and 250 points, \<^verbatim>\<open>wallet_age\<close> holds 400 and 500 points, \<^verbatim>\<open>bridge_in\<close> holds
  the volume 1500 and 250 points, and the total is 1000 plus the points of the fifteen
  other entries: the three contribute 1000 to the total.
\<close>

theorem worked_example:
  assumes "\<not> any_rejected env" and "\<not> any_json_throws env"
    and "walletStatsRes env = Resolves True (JsonValue (Some ws))"
    and "supportedNftCountOf ws = Fin 7"
    and "ageDays ws = Some (Fin 400)"
    and "bridgeRes env = Resolves True (JsonValue (Some b))"
    and "bridgedInUsd b = Some (Fin 1500)"
  shows "\<exists>resp w'. calculateWalletScore w env a = (Inr resp, w') \<and>
           map_of (native (breakdown resp)) ''nft_collections''
             = Some \<lparr>points = 250, metric_value = Fin 7\<rparr> \<and>
           map_of (native (breakdown resp)) ''wallet_age''
             = Some \<lparr>points = 500, metric_value = Fin 400\<rparr> \<and>
           map_of (platforms (breakdown resp)) ''bridge_in''
             = Some \<lparr>points = 250, tx_count = opt_or_zero (bridgedInCount b),
                     usd_volume = Fin 1500\<rparr> \<and>
           total_points resp
             = 1000
               + (sum_points (filter (\<lambda>kv. fst kv \<notin> {''nft_collections'', ''wallet_age''})
                               (native (breakdown resp)))
                  + sum_points (filter (\<lambda>kv. fst kv \<noteq> ''bridge_in'')
                                  (platforms (breakdown resp))))"
proof -
  have ws: "data_of (walletStatsRes env) = Some ws"
    using assms(3) by (simp add: data_of_def)
  have br: "data_of (bridgeRes env) = Some b"
    using assms(6) by (simp add: data_of_def)
  have nft: "calculateNftCollectionsPoints (Fin 7) = 250"
    by (simp add: calculateNftCollectionsPoints_def js_ge_def)
  have age: "opt_or_zero (ageDays ws) = Fin 400" "calculateWalletAgePoints (Fin 400) = 500"
    by (simp_all add: assms(5) opt_or_zero_def or_zero_def calculateWalletAgePoints_def)
  have bridge: "opt_or_zero (fld bridgedInUsd (data_of (bridgeRes env))) = Fin 1500"
    "fld bridgedInCount (data_of (bridgeRes env)) = bridgedInCount b"
    "calculateBridgeInPoints (Fin 1500) = 250"
    by (simp_all add: br assms(7) fld_def opt_or_zero_def or_zero_def
        calculateBridgeInPoints_def getBridgeVolumeTierPoints_def js_ge_def)
  obtain resp w' where r: "calculateWalletScore w env a = (Inr resp, w')"
    and n: "native (breakdown resp) = fst (scoreNative w env ws)"
    and p: "platforms (breakdown resp) = fst (scorePlatforms env)"
    and t: "total_points resp = fst (snd (scoreNative w env ws)) + snd (scorePlatforms env)"
    using breakdown_of_success [OF assms(1,2) ws, of w a] by blast
  have total: "total_points resp
      = 1000
        + (sum_points (filter (\<lambda>kv. fst kv \<notin> {''nft_collections'', ''wallet_age''})
                        (native (breakdown resp)))
           + sum_points (filter (\<lambda>kv. fst kv \<noteq> ''bridge_in'') (platforms (breakdown resp))))"
    unfolding t n p
    by (subst native_total_split, subst platforms_total_split)
      (simp add: assms(4) nft age bridge)
  show ?thesis
    unfolding r
    by (intro exI [of _ resp] exI [of _ w'])
      (simp add: total n p lookup_nft_collections lookup_wallet_age lookup_bridge_in nft age
        bridge assms(4))
qed

text \<open>The theorem for a wallet whose only other source in order is the bridge.\<close>

theorem worked_example_witness:
  "supportedNftCountOf example_stats = Fin 7 \<and> ageDays example_stats = Some (Fin 400) \<and>
   bridgedInUsd example_bridge = Some (Fin 1500) \<and>
   (\<exists>resp w'. calculateWalletScore example_world
                 (degraded_env\<lparr>bridgeRes := Resolves True (JsonValue (Some example_bridge))\<rparr>)
                 ''0xAbC'' = (Inr resp, w') \<and>
      map_of (native (breakdown resp)) ''nft_collections''
        = Some \<lparr>points = 250, metric_value = Fin 7\<rparr> \<and>
      map_of (native (breakdown resp)) ''wallet_age''
        = Some \<lparr>points = 500, metric_value = Fin 400\<rparr> \<and>
      map_of (platforms (breakdown resp)) ''bridge_in''
        = Some \<lparr>points = 250, tx_count = Fin 2, usd_volume = Fin 1500\<rparr> \<and>
      total_points resp
        = 1000
          + (sum_points (filter (\<lambda>kv. fst kv \<notin> {''nft_collections'', ''wallet_age''})
                          (native (breakdown resp)))
             + sum_points (filter (\<lambda>kv. fst kv \<noteq> ''bridge_in'')
                             (platforms (breakdown resp)))))"
proof -
  let ?env = "degraded_env\<lparr>bridgeRes := Resolves True (JsonValue (Some example_bridge))\<rparr>"
  have h: "\<not> any_rejected ?env" "\<not> any_json_throws ?env"
    "walletStatsRes ?env = Resolves True (JsonValue (Some example_stats))"
    "bridgeRes ?env = Resolves True (JsonValue (Some example_bridge))"
    by (simp_all add: degraded_env_def any_rejected_def rejected_def any_json_throws_def
        json_throws_def)
  have v: "supportedNftCountOf example_stats = Fin 7" "ageDays example_stats = Some (Fin 400)"
    "bridgedInUsd example_bridge = Some (Fin 1500)"
    "opt_or_zero (bridgedInCount example_bridge) = Fin 2"
    by (simp_all add: supportedNftCountOf_def example_stats_def example_bridge_def
        opt_or_empty_def opt_or_zero_def or_zero_def)
  from worked_example [OF h(1,2,3) v(1,2) h(4) v(3), of example_world "''0xAbC''"] v
  show ?thesis
    by simp
qed

end
